theory Spec2Isabelle
  imports Main "HOL-Library.Word"
begin

unbundle bit_operations_syntax

section \<open>JavaScript strings and built-ins\<close>

text \<open>
  A JavaScript string is a sequence of UTF-16 code units. String literals of the
  sources that are plain ASCII are written with \<open>js\<close>; the few literals with
  other characters are written as lists of code units.
\<close>

type_synonym jschar = "16 word"
type_synonym jsstring = "jschar list"

definition js :: "string \<Rightarrow> jsstring" where
  "js s = map (\<lambda>c. of_nat (of_char c)) s"

text \<open>
  Numbers of the payloads are kept abstract (type \<open>'n\<close>). The built-ins that the
  renderers apply to payload values are parameters of the model:
  \<^item> \<open>num_str\<close>: the Number-to-String conversion of a template literal;
  \<^item> \<open>date_str\<close>: \<^verbatim>\<open>new Date(x).toLocaleDateString()\<close>;
  \<^item> \<open>upper\<close>: \<^verbatim>\<open>String.prototype.toUpperCase\<close>.
\<close>

record 'n builtins =
  num_str :: "'n \<Rightarrow> jsstring"
  date_str :: "jsstring \<Rightarrow> jsstring"
  upper :: "jsstring \<Rightarrow> jsstring"

text \<open>A template literal prints an absent (undefined) property as the text "undefined".\<close>

definition tmpl :: "jsstring option \<Rightarrow> jsstring" where
  "tmpl v = (case v of None \<Rightarrow> js ''undefined'' | Some s \<Rightarrow> s)"

text \<open>
  The same for a number: \<^verbatim>\<open>${x.n}\<close> prints "undefined" when the object has no
  property \<^verbatim>\<open>n\<close>.
\<close>

definition tmpl_num :: "'n builtins \<Rightarrow> 'n option \<Rightarrow> jsstring" where
  "tmpl_num env v = (case v of None \<Rightarrow> js ''undefined'' | Some n \<Rightarrow> num_str env n)"

text \<open>
  The exceptions that the modelled code can throw: \<^verbatim>\<open>TypeError\<close> (a property read
  or a method call on \<^verbatim>\<open>undefined\<close> or \<^verbatim>\<open>null\<close>, a call of something that is
  not a function), the \<^verbatim>\<open>InvalidCharacterError\<close> of \<^verbatim>\<open>btoa\<close> and \<^verbatim>\<open>atob\<close>, and
  the \<^verbatim>\<open>SyntaxError\<close> of \<^verbatim>\<open>JSON.parse\<close>.
\<close>

datatype js_error = TypeError | InvalidCharacterError | SyntaxError

text \<open>\<^verbatim>\<open>s.charAt(0).toUpperCase() + s.slice(1)\<close>\<close>

definition capitalize :: "'n builtins \<Rightarrow> jsstring \<Rightarrow> jsstring" where
  "capitalize env s = upper env (take 1 s) @ drop 1 s"

subsection \<open>Property lookup in an object literal\<close>

text \<open>
  \<^verbatim>\<open>obj[key]\<close> on an object literal finds the literal's own properties and, for
  any other key, the properties every object inherits from \<^verbatim>\<open>Object.prototype\<close>.
  The table gives each inherited property with the text a template literal prints
  for it (the wording of the function text is the engine's; V8's is used).
\<close>

definition object_prototype :: "(string \<times> string) list" where
  "object_prototype =
    [(''constructor'', ''function Object() { [native code] }''),
     (''__defineGetter__'', ''function __defineGetter__() { [native code] }''),
     (''__defineSetter__'', ''function __defineSetter__() { [native code] }''),
     (''hasOwnProperty'', ''function hasOwnProperty() { [native code] }''),
     (''__lookupGetter__'', ''function __lookupGetter__() { [native code] }''),
     (''__lookupSetter__'', ''function __lookupSetter__() { [native code] }''),
     (''isPrototypeOf'', ''function isPrototypeOf() { [native code] }''),
     (''propertyIsEnumerable'', ''function propertyIsEnumerable() { [native code] }''),
     (''toString'', ''function toString() { [native code] }''),
     (''valueOf'', ''function valueOf() { [native code] }''),
     (''__proto__'', ''[object Object]''),
     (''toLocaleString'', ''function toLocaleString() { [native code] }'')]"

datatype lookup = Own jsstring | Inherited jsstring | Missing

definition js_table :: "(string \<times> string) list \<Rightarrow> (jsstring \<times> jsstring) list" where
  "js_table t = map (\<lambda>(k, v). (js k, js v)) t"

definition obj_get :: "(jsstring \<times> jsstring) list \<Rightarrow> jsstring \<Rightarrow> lookup" where
  "obj_get literal key =
    (case map_of literal key of
       Some v \<Rightarrow> Own v
     | None \<Rightarrow>
        (case map_of (js_table object_prototype) key of
           Some text \<Rightarrow> Inherited text
         | None \<Rightarrow> Missing))"

text \<open>
  \<^verbatim>\<open>${obj[key] || fallback}\<close>: an own string is used unless it is empty, an
  inherited function or object is truthy and is printed, a missing property gives
  the fallback.
\<close>

definition or_else :: "lookup \<Rightarrow> jsstring \<Rightarrow> jsstring" where
  "or_else l fallback =
    (case l of
       Own v \<Rightarrow> (if v = [] then fallback else v)
     | Inherited text \<Rightarrow> text
     | Missing \<Rightarrow> fallback)"

section \<open>Progress tracker: payloads and page state\<close>

text \<open>
  A payload is a record of the fields that its renderer reads. A field that the
  code reads under a guard (\<^verbatim>\<open>if (data.x)\<close>, \<^verbatim>\<open>data.x && ...\<close>) is optional, and
  so is the message; a field read without a guard is taken to be there, with the
  type the renderer uses it at. The status is any string.
\<close>

record 'n measurement =
  m_date :: jsstring
  weight_kg :: 'n

record 'n weight_trend =
  wt_status :: jsstring
  wt_message :: "jsstring option"
  first_measurement :: "'n measurement option"
  latest_measurement :: "'n measurement option"
  total_change_kg :: 'n
  percent_change :: 'n
  weekly_change_rate_kg :: 'n
  wt_trend :: jsstring
  wt_insights :: "jsstring list option"

record 'n bp_trend =
  bp_status :: jsstring
  bp_message :: "jsstring option"
  average_systolic :: 'n
  average_diastolic :: 'n
  min_systolic :: 'n
  min_diastolic :: 'n
  max_systolic :: 'n
  max_diastolic :: 'n
  bp_category :: jsstring
  data_points :: 'n
  bp_insights_list :: "jsstring list option"

record 'n goal_progress =
  gp_status :: jsstring
  gp_message :: "jsstring option"
  goal_type :: jsstring
  target_value :: 'n
  initial_value :: 'n
  current_value :: 'n
  progress_percentage :: 'n
  gp_insights :: "jsstring list option"

text \<open>
  The configuration object handed to \<^verbatim>\<open>new Chart(ctx, ...)\<close>: the type, the labels
  and, for each data set, its label, data, background colours and border width.
  (A single background colour is a list of one; the other styling constants, which
  no payload influences, are left out.)
\<close>

record 'n dataset =
  ds_label :: jsstring
  ds_data :: "'n list"
  ds_backgroundColor :: "jsstring list"
  ds_borderWidth :: nat

record 'n chart =
  chart_type :: jsstring
  chart_labels :: "jsstring list"
  chart_datasets :: "'n dataset list"

datatype tab = WeightTab | BloodPressureTab | GoalsTab | ReportTab

record 'n progress_data =
  pd_user_id :: "jsstring option"
  pd_weight_kg :: "'n option"
  pd_blood_pressure_systolic :: "'n option"
  pd_blood_pressure_diastolic :: "'n option"
  pd_blood_sugar :: "'n option"
  pd_notes :: "jsstring option"

text \<open>A network call, by endpoint, with the values put into its URL or body.\<close>

datatype 'n request =
    WeightTrendReq "jsstring option" int
  | BloodPressureTrendReq "jsstring option" int
  | GoalProgressReq "jsstring option" jsstring 'n
  | HealthReportReq "jsstring option"
  | LogReq "'n progress_data"

text \<open>
  \<^verbatim>\<open>ProgressTracker.state\<close> together with the parts of the page it writes:
  which tabs and contents carry the class \<^verbatim>\<open>active\<close>, the \<^verbatim>\<open>innerHTML\<close> of each
  surface, the charts, and the network calls issued so far (oldest first).
\<close>

record 'n tracker =
  userId :: "jsstring option"
  currentDays :: int
  active_tabs :: "tab set"
  active_contents :: "tab set"
  requests :: "'n request list"
  weightChart :: "'n chart option"
  bpChart :: "'n chart option"
  weight_chart_container :: jsstring
  weight_insights :: jsstring
  bp_chart_container :: jsstring
  bp_insights :: jsstring
  goal_progress_container :: jsstring
  health_report_container :: jsstring
  progress_log_message :: jsstring

definition chartColors_weight :: jsstring where
  "chartColors_weight = js ''#4CAF50''"

definition chartColors_bloodPressureSystolic :: jsstring where
  "chartColors_bloodPressureSystolic = js ''#F44336''"

definition chartColors_bloodPressureDiastolic :: jsstring where
  "chartColors_bloodPressureDiastolic = js ''#9C27B0''"

text \<open>
  The block shared by the renderers:
  \<^verbatim>\<open>if (data.insights && data.insights.length > 0) { <h5>, <ul>, one <li> each, </ul> }\<close>
\<close>

definition insights_block :: "jsstring list option \<Rightarrow> jsstring" where
  "insights_block ins =
    (case ins of
       None \<Rightarrow> []
     | Some xs \<Rightarrow>
        (if length xs > 0
         then js ''<h5>Insights:</h5>'' @ js ''<ul>''
              @ concat (map (\<lambda>insight. js ''<li>'' @ insight @ js ''</li>'') xs)
              @ js ''</ul>''
         else []))"

subsection \<open>Weight trend\<close>

definition weight_points :: "'n builtins \<Rightarrow> 'n weight_trend \<Rightarrow> jsstring list \<times> 'n list" where
  "weight_points env data =
    (case (first_measurement data, latest_measurement data) of
       (Some f, Some l) \<Rightarrow>
         (if m_date f \<noteq> m_date l
          then ([date_str env (m_date f), date_str env (m_date l)], [weight_kg f, weight_kg l])
          else ([date_str env (m_date f)], [weight_kg f]))
     | _ \<Rightarrow> ([], []))"

definition renderWeightChart :: "'n builtins \<Rightarrow> 'n weight_trend \<Rightarrow> 'n tracker \<Rightarrow> 'n tracker" where
  "renderWeightChart env data st =
    (let (labels, weightData) = weight_points env data in
     st\<lparr>weight_chart_container := js ''<canvas id=\"weight-chart\"></canvas>'',
        weightChart := Some \<lparr>chart_type = js ''line'',
                              chart_labels = labels,
                              chart_datasets =
                                [\<lparr>ds_label = js ''Weight (kg)'',
                                  ds_data = weightData,
                                  ds_backgroundColor = [chartColors_weight],
                                  ds_borderWidth = 2\<rparr>]\<rparr>\<rparr>)"

definition renderWeightInsights :: "'n builtins \<Rightarrow> 'n weight_trend \<Rightarrow> 'n tracker \<Rightarrow> 'n tracker" where
  "renderWeightInsights env data st =
    (let html = js ''<div class=\"card\">'';
         html = html @ js ''<div class=\"card-header\">Weight Insights</div>'';
         html = html @ js ''<div class=\"card-body\">'';
         html =
           (if wt_status data = js ''success''
            then html
                 @ js ''<p><strong>Total Change:</strong> '' @ num_str env (total_change_kg data)
                 @ js '' kg ('' @ num_str env (percent_change data) @ js ''%)</p>''
                 @ js ''<p><strong>Weekly Change Rate:</strong> ''
                 @ num_str env (weekly_change_rate_kg data) @ js '' kg/week</p>''
                 @ js ''<p><strong>Trend:</strong> '' @ capitalize env (wt_trend data) @ js ''</p>''
                 @ insights_block (wt_insights data)
            else html @ js ''<p>'' @ tmpl (wt_message data) @ js ''</p>'');
         html = html @ js ''</div></div>''
     in st\<lparr>weight_insights := html\<rparr>)"

text \<open>
  The handler that \<^verbatim>\<open>loadWeightTrend\<close> runs on the parsed response
  (\<^verbatim>\<open>.then(data => ...)\<close>).
\<close>

definition weightTrendLoaded :: "'n builtins \<Rightarrow> 'n weight_trend \<Rightarrow> 'n tracker \<Rightarrow> 'n tracker" where
  "weightTrendLoaded env data st =
    (if wt_status data = js ''success''
     then renderWeightInsights env data (renderWeightChart env data st)
     else st\<lparr>weight_chart_container :=
                 js ''<div class=\"alert alert-info\">'' @ tmpl (wt_message data) @ js ''</div>'',
             weight_insights := []\<rparr>)"

subsection \<open>Blood-pressure trend\<close>

definition renderBloodPressureChart :: "'n bp_trend \<Rightarrow> 'n tracker \<Rightarrow> 'n tracker" where
  "renderBloodPressureChart data st =
    st\<lparr>bp_chart_container := js ''<canvas id=\"bp-chart\"></canvas>'',
       bpChart := Some \<lparr>chart_type = js ''bar'',
                         chart_labels = [js ''Systolic'', js ''Diastolic''],
                         chart_datasets =
                           [\<lparr>ds_label = js ''Average'',
                             ds_data = [average_systolic data, average_diastolic data],
                             ds_backgroundColor =
                               [chartColors_bloodPressureSystolic,
                                chartColors_bloodPressureDiastolic],
                             ds_borderWidth = 1\<rparr>,
                            \<lparr>ds_label = js ''Min'',
                             ds_data = [min_systolic data, min_diastolic data],
                             ds_backgroundColor =
                               [chartColors_bloodPressureSystolic @ js ''80'',
                                chartColors_bloodPressureDiastolic @ js ''80''],
                             ds_borderWidth = 1\<rparr>,
                            \<lparr>ds_label = js ''Max'',
                             ds_data = [max_systolic data, max_diastolic data],
                             ds_backgroundColor =
                               [chartColors_bloodPressureSystolic @ js ''B0'',
                                chartColors_bloodPressureDiastolic @ js ''B0''],
                             ds_borderWidth = 1\<rparr>]\<rparr>\<rparr>"

definition categoryMap :: "(jsstring \<times> jsstring) list" where
  "categoryMap = js_table
    [(''normal'', ''Normal''),
     (''elevated'', ''Elevated''),
     (''hypertension_stage_1'', ''Hypertension Stage 1''),
     (''hypertension_stage_2'', ''Hypertension Stage 2''),
     (''hypertensive_crisis'', ''Hypertensive Crisis''),
     (''unknown'', ''Unknown'')]"

text \<open>\<^verbatim>\<open>categoryMap[category] || category\<close>\<close>

definition category_label :: "jsstring \<Rightarrow> jsstring" where
  "category_label category = or_else (obj_get categoryMap category) category"

definition renderBloodPressureInsights :: "'n builtins \<Rightarrow> 'n bp_trend \<Rightarrow> 'n tracker \<Rightarrow> 'n tracker" where
  "renderBloodPressureInsights env data st =
    (let html = js ''<div class=\"card\">'';
         html = html @ js ''<div class=\"card-header\">Blood Pressure Insights</div>'';
         html = html @ js ''<div class=\"card-body\">'';
         html =
           (if bp_status data = js ''success''
            then html
                 @ js ''<p><strong>Average:</strong> '' @ num_str env (average_systolic data)
                 @ js ''/'' @ num_str env (average_diastolic data) @ js '' mmHg</p>''
                 @ js ''<p><strong>Category:</strong> '' @ category_label (bp_category data)
                 @ js ''</p>''
                 @ js ''<p><strong>Data Points:</strong> '' @ num_str env (data_points data)
                 @ js ''</p>''
                 @ insights_block (bp_insights_list data)
            else html @ js ''<p>'' @ tmpl (bp_message data) @ js ''</p>'');
         html = html @ js ''</div></div>''
     in st\<lparr>bp_insights := html\<rparr>)"

definition bloodPressureTrendLoaded :: "'n builtins \<Rightarrow> 'n bp_trend \<Rightarrow> 'n tracker \<Rightarrow> 'n tracker" where
  "bloodPressureTrendLoaded env data st =
    (if bp_status data = js ''success''
     then renderBloodPressureInsights env data (renderBloodPressureChart data st)
     else st\<lparr>bp_chart_container :=
                 js ''<div class=\"alert alert-info\">'' @ tmpl (bp_message data) @ js ''</div>'',
             bp_insights := []\<rparr>)"

subsection \<open>Goal progress\<close>

definition goalTypeMap :: "(jsstring \<times> jsstring) list" where
  "goalTypeMap = js_table
    [(''weight'', ''Weight''),
     (''blood_sugar'', ''Blood Sugar''),
     (''blood_pressure'', ''Blood Pressure'')]"

text \<open>The text inside the progress bar: \<^verbatim>\<open>${data.progress_percentage}%\<close>\<close>

definition progress_label :: "'n builtins \<Rightarrow> 'n \<Rightarrow> jsstring" where
  "progress_label env p = num_str env p @ js ''%''"

text \<open>The three statements that build the progress bar.\<close>

definition progress_bar :: "'n builtins \<Rightarrow> 'n \<Rightarrow> jsstring" where
  "progress_bar env p =
     js ''<div class=\"progress\" style=\"height: 25px;\">''
     @ js ''<div class=\"progress-bar\" role=\"progressbar\" style=\"width: ''
     @ num_str env p @ js ''%\" ''
     @ js ''aria-valuenow=\"'' @ num_str env p
     @ js ''\" aria-valuemin=\"0\" aria-valuemax=\"100\">''
     @ progress_label env p @ js ''</div></div>''"

definition renderGoalProgress :: "'n builtins \<Rightarrow> 'n goal_progress \<Rightarrow> 'n tracker \<Rightarrow> 'n tracker" where
  "renderGoalProgress env data st =
    (if gp_status data = js ''success''
     then
       (let html = js ''<div class=\"card\">'';
            html = html @ js ''<div class=\"card-header\">Goal Progress</div>'';
            html = html @ js ''<div class=\"card-body\">'';
            html = html @ js ''<p><strong>Goal Type:</strong> ''
                   @ or_else (obj_get goalTypeMap (goal_type data)) (goal_type data) @ js ''</p>'';
            html = html @ js ''<p><strong>Target Value:</strong> ''
                   @ num_str env (target_value data) @ js ''</p>'';
            html = html @ js ''<p><strong>Initial Value:</strong> ''
                   @ num_str env (initial_value data) @ js ''</p>'';
            html = html @ js ''<p><strong>Current Value:</strong> ''
                   @ num_str env (current_value data) @ js ''</p>'';
            html = html @ progress_bar env (progress_percentage data);
            html = html @ js ''<p class=\"mt-2\"></p>'';
            html = html @ insights_block (gp_insights data);
            html = html @ js ''</div></div>''
        in st\<lparr>goal_progress_container := html\<rparr>)
     else st\<lparr>goal_progress_container :=
                 js ''<div class=\"alert alert-info\">'' @ tmpl (gp_message data) @ js ''</div>''\<rparr>)"

subsection \<open>Health report\<close>

text \<open>
  A statement \<^verbatim>\<open>if (c) { html += x; }\<close> is written as appending \<open>x\<close> when \<open>c\<close>
  holds and the empty string otherwise.
\<close>

record 'n user_info =
  ui_name :: jsstring
  ui_age :: "'n option"
  ui_gender :: jsstring
  height_cm :: 'n
  current_weight_kg :: "'n option"

record 'n report_summary =
  data_points_collected :: 'n
  days_tracked :: 'n
  metrics_tracked :: "jsstring list"

text \<open>
  The weight and blood-pressure sections of a report are analysis results, and the
  report renderer reads their fields without looking at their status: a result
  that is not a success (it carries a status and a message only) is a section
  that is there and has none of the fields, so every field is optional. The trend
  is \<open>None\<close> when the section has no trend that is a string.
\<close>

record 'n weight_analysis =
  wa_total_change_kg :: "'n option"
  wa_percent_change :: "'n option"
  wa_weekly_change_rate_kg :: "'n option"
  wa_trend :: "jsstring option"

record 'n blood_pressure_analysis =
  ba_average_systolic :: "'n option"
  ba_average_diastolic :: "'n option"
  ba_category :: "jsstring option"

text \<open>\<open>meal_frequency\<close> lists the object's entries in the order of \<^verbatim>\<open>Object.entries\<close>.\<close>

record 'n nutrition_summary =
  ns_status :: jsstring
  average_daily_calories :: 'n
  ns_days_tracked :: 'n
  meal_frequency :: "(jsstring \<times> 'n) list option"

record time_pattern =
  tp_symptom :: jsstring
  tp_time :: jsstring

record 'n symptom_patterns =
  sp_status :: jsstring
  most_frequent_symptoms :: "(jsstring \<times> 'n) list option"
  time_patterns :: "time_pattern list option"

record 'n health_report =
  hr_status :: jsstring
  hr_message :: "jsstring option"
  user_info :: "'n user_info"
  report_date :: jsstring
  summary :: "'n report_summary"
  weight_analysis :: "'n weight_analysis option"
  blood_pressure_analysis :: "'n blood_pressure_analysis option"
  nutrition_summary :: "'n nutrition_summary option"
  symptom_patterns :: "'n symptom_patterns option"
  recommendations :: "jsstring list option"

text \<open>\<^verbatim>\<open>if (x)\<close> on an optional number: absent and zero are both falsy.\<close>

definition truthy_num :: "('n::zero) option \<Rightarrow> bool" where
  "truthy_num v = (case v of None \<Rightarrow> False | Some n \<Rightarrow> n \<noteq> 0)"

text \<open>\<^verbatim>\<open>Array.prototype.join\<close> on an array of strings.\<close>

fun join :: "jsstring \<Rightarrow> jsstring list \<Rightarrow> jsstring" where
  "join sep [] = []"
| "join sep [x] = x"
| "join sep (x # y # ys) = x @ sep @ join sep (y # ys)"

definition user_info_card :: "('n::zero) builtins \<Rightarrow> 'n user_info \<Rightarrow> jsstring" where
  "user_info_card env u =
    (let html = js ''<div class=\"card mb-3\">'';
         html = html @ js ''<div class=\"card-header\">User Information</div>'';
         html = html @ js ''<div class=\"card-body\">'';
         html = html @ js ''<p><strong>Name:</strong> '' @ ui_name u @ js ''</p>'';
         html = html @ (if truthy_num (ui_age u)
                        then js ''<p><strong>Age:</strong> '' @ num_str env (the (ui_age u))
                             @ js ''</p>''
                        else []);
         html = html @ js ''<p><strong>Gender:</strong> '' @ ui_gender u @ js ''</p>'';
         html = html @ js ''<p><strong>Height:</strong> '' @ num_str env (height_cm u)
                @ js '' cm</p>'';
         html = html @ (if truthy_num (current_weight_kg u)
                        then js ''<p><strong>Current Weight:</strong> ''
                             @ num_str env (the (current_weight_kg u)) @ js '' kg</p>''
                        else [])
     in html @ js ''</div></div>'')"

definition summary_card :: "'n builtins \<Rightarrow> 'n health_report \<Rightarrow> jsstring" where
  "summary_card env data =
    (let html = js ''<div class=\"card mb-3\">'';
         html = html @ js ''<div class=\"card-header\">Summary</div>'';
         html = html @ js ''<div class=\"card-body\">'';
         html = html @ js ''<p><strong>Report Date:</strong> ''
                @ date_str env (report_date data) @ js ''</p>'';
         html = html @ js ''<p><strong>Data Points Collected:</strong> ''
                @ num_str env (data_points_collected (summary data)) @ js ''</p>'';
         html = html @ js ''<p><strong>Days Tracked:</strong> ''
                @ num_str env (days_tracked (summary data)) @ js ''</p>'';
         html = html @ js ''<p><strong>Metrics Tracked:</strong> ''
                @ join (js '', '') (metrics_tracked (summary data)) @ js ''</p>''
     in html @ js ''</div></div>'')"

text \<open>
  The statements of the weight section. Without a trend that is a string,
  \<^verbatim>\<open>data.weight_analysis.trend.charAt(0)\<close> throws a \<^verbatim>\<open>TypeError\<close>: there is
  nothing to read \<^verbatim>\<open>charAt\<close> from, or what is read is not a function.
\<close>

definition weight_analysis_card ::
  "'n builtins \<Rightarrow> 'n weight_analysis \<Rightarrow> js_error + jsstring" where
  "weight_analysis_card env w =
    (let html = js ''<div class=\"card mb-3\">'';
         html = html @ js ''<div class=\"card-header\">Weight Analysis</div>'';
         html = html @ js ''<div class=\"card-body\">'';
         html = html @ js ''<p><strong>Total Change:</strong> ''
                @ tmpl_num env (wa_total_change_kg w) @ js '' kg (''
                @ tmpl_num env (wa_percent_change w) @ js ''%)</p>'';
         html = html @ js ''<p><strong>Weekly Change Rate:</strong> ''
                @ tmpl_num env (wa_weekly_change_rate_kg w) @ js '' kg/week</p>''
     in case wa_trend w of
          None \<Rightarrow> Inl TypeError
        | Some trend \<Rightarrow>
            (let html = html @ js ''<p><strong>Trend:</strong> '' @ capitalize env trend
                        @ js ''</p>''
             in Inr (html @ js ''</div></div>'')))"

text \<open>
  The statements of the blood-pressure section. Without a category,
  \<^verbatim>\<open>categoryMap[undefined]\<close> looks up the key "undefined", finds nothing, and the
  fallback, \<^verbatim>\<open>undefined\<close> again, is printed as "undefined".
\<close>

definition blood_pressure_analysis_card ::
  "'n builtins \<Rightarrow> 'n blood_pressure_analysis \<Rightarrow> jsstring" where
  "blood_pressure_analysis_card env b =
    (let html = js ''<div class=\"card mb-3\">'';
         html = html @ js ''<div class=\"card-header\">Blood Pressure Analysis</div>'';
         html = html @ js ''<div class=\"card-body\">'';
         html = html @ js ''<p><strong>Average:</strong> ''
                @ tmpl_num env (ba_average_systolic b) @ js ''/''
                @ tmpl_num env (ba_average_diastolic b) @ js '' mmHg</p>'';
         html = html @ js ''<p><strong>Category:</strong> ''
                @ (case ba_category b of
                     Some category \<Rightarrow> category_label category
                   | None \<Rightarrow> tmpl None)
                @ js ''</p>''
     in html @ js ''</div></div>'')"

definition nutrition_summary_card :: "'n builtins \<Rightarrow> 'n nutrition_summary \<Rightarrow> jsstring" where
  "nutrition_summary_card env n =
    (let html = js ''<div class=\"card mb-3\">'';
         html = html @ js ''<div class=\"card-header\">Nutrition Summary</div>'';
         html = html @ js ''<div class=\"card-body\">'';
         html = html @ js ''<p><strong>Average Daily Calories:</strong> ''
                @ num_str env (average_daily_calories n) @ js ''</p>'';
         html = html @ js ''<p><strong>Days Tracked:</strong> ''
                @ num_str env (ns_days_tracked n) @ js ''</p>'';
         html = html @
           (case meal_frequency n of
              None \<Rightarrow> []
            | Some entries \<Rightarrow>
                js ''<p><strong>Meal Frequency:</strong></p>'' @ js ''<ul>''
                @ concat (map (\<lambda>(mealType, count).
                                js ''<li>'' @ capitalize env mealType @ js '': ''
                                @ num_str env count @ js ''</li>'') entries)
                @ js ''</ul>'')
     in html @ js ''</div></div>'')"

definition symptom_patterns_card :: "'n builtins \<Rightarrow> 'n symptom_patterns \<Rightarrow> jsstring" where
  "symptom_patterns_card env p =
    (let html = js ''<div class=\"card mb-3\">'';
         html = html @ js ''<div class=\"card-header\">Symptom Patterns</div>'';
         html = html @ js ''<div class=\"card-body\">'';
         html = html @
           (case most_frequent_symptoms p of
              None \<Rightarrow> []
            | Some syms \<Rightarrow>
                (if length syms > 0
                 then js ''<p><strong>Most Frequent Symptoms:</strong></p>'' @ js ''<ul>''
                      @ concat (map (\<lambda>(symptom, count).
                                      js ''<li>'' @ symptom @ js '': '' @ num_str env count
                                      @ js '' occurrences</li>'') syms)
                      @ js ''</ul>''
                 else []));
         html = html @
           (case time_patterns p of
              None \<Rightarrow> []
            | Some pats \<Rightarrow>
                (if length pats > 0
                 then js ''<p><strong>Time Patterns:</strong></p>'' @ js ''<ul>''
                      @ concat (map (\<lambda>pattern.
                                      js ''<li>'' @ tp_symptom pattern
                                      @ js '' tends to occur in the '' @ tp_time pattern
                                      @ js ''</li>'') pats)
                      @ js ''</ul>''
                 else []))
     in html @ js ''</div></div>'')"

definition recommendations_card :: "jsstring list \<Rightarrow> jsstring" where
  "recommendations_card recs =
    (let html = js ''<div class=\"card mb-3\">'';
         html = html @ js ''<div class=\"card-header\">Recommendations</div>'';
         html = html @ js ''<div class=\"card-body\">'';
         html = html @ js ''<ul>'';
         html = html @ concat (map (\<lambda>recommendation.
                                     js ''<li>'' @ recommendation @ js ''</li>'') recs);
         html = html @ js ''</ul>''
     in html @ js ''</div></div>'')"

text \<open>
  The renderer returns the page it has written to, or the exception it throws. The
  container is written by the last statement only, so an exception of the weight
  section leaves the page as it was.
\<close>

definition renderHealthReport ::
  "('n::zero) builtins \<Rightarrow> 'n health_report \<Rightarrow> 'n tracker \<Rightarrow> js_error + 'n tracker" where
  "renderHealthReport env data st =
    (if hr_status data = js ''success''
     then
      (case (case weight_analysis data of
               Some w \<Rightarrow> weight_analysis_card env w
             | None \<Rightarrow> Inr []) of
         Inl e \<Rightarrow> Inl e
       | Inr weight \<Rightarrow> Inr
       (let html = js ''<div class=\"health-report\">'';
            html = html @ user_info_card env (user_info data);
            html = html @ summary_card env data;
            html = html @ weight;
            html = html @ (case blood_pressure_analysis data of
                             Some b \<Rightarrow> blood_pressure_analysis_card env b
                           | None \<Rightarrow> []);
            html = html @ (case nutrition_summary data of
                             Some n \<Rightarrow>
                               (if ns_status n = js ''success''
                                then nutrition_summary_card env n
                                else [])
                           | None \<Rightarrow> []);
            html = html @ (case symptom_patterns data of
                             Some p \<Rightarrow>
                               (if sp_status p = js ''success''
                                then symptom_patterns_card env p
                                else [])
                           | None \<Rightarrow> []);
            html = html @ (case recommendations data of
                             Some recs \<Rightarrow>
                               (if length recs > 0 then recommendations_card recs else [])
                           | None \<Rightarrow> []);
            html = html @ js ''</div>''
        in st\<lparr>health_report_container := html\<rparr>))
     else Inr (st\<lparr>health_report_container :=
                 js ''<div class=\"alert alert-info\">'' @ tmpl (hr_message data)
                 @ js ''</div>''\<rparr>))"

subsection \<open>Tab and time-range controller\<close>

text \<open>
  The \<^verbatim>\<open>fetch\<close> of each loader; the response is handled later, by the
  \<open>...Loaded\<close> function of the loader or by its \<^verbatim>\<open>catch\<close> handler.
\<close>

definition loadWeightTrend :: "'n tracker \<Rightarrow> 'n tracker" where
  "loadWeightTrend st =
     st\<lparr>requests := requests st @ [WeightTrendReq (userId st) (currentDays st)]\<rparr>"

definition loadBloodPressureTrend :: "'n tracker \<Rightarrow> 'n tracker" where
  "loadBloodPressureTrend st =
     st\<lparr>requests := requests st @ [BloodPressureTrendReq (userId st) (currentDays st)]\<rparr>"

definition trackGoalProgress :: "jsstring \<Rightarrow> 'n \<Rightarrow> 'n tracker \<Rightarrow> 'n tracker" where
  "trackGoalProgress goalType targetValue st =
     st\<lparr>requests := requests st @ [GoalProgressReq (userId st) goalType targetValue]\<rparr>"

definition loadHealthReport :: "'n tracker \<Rightarrow> 'n tracker" where
  "loadHealthReport st = st\<lparr>requests := requests st @ [HealthReportReq (userId st)]\<rparr>"

definition logProgress :: "'n progress_data \<Rightarrow> 'n tracker \<Rightarrow> 'n tracker" where
  "logProgress progressData st = st\<lparr>requests := requests st @ [LogReq progressData]\<rparr>"

text \<open>
  Modelled from the spec: the HTML pages are not among the sources. This is the
  state object as the module declares it (no user, 30 days, no charts) on a page
  whose surfaces are empty and on which no tab carries the class \<^verbatim>\<open>active\<close>
  yet; the specification's initial state, weight tab and 30-day range, is the one
  that \<^verbatim>\<open>init\<close> makes of it.
\<close>

definition initial_tracker :: "'n tracker" where
  "initial_tracker =
    \<lparr>userId = None, currentDays = 30, active_tabs = {}, active_contents = {},
     requests = [], weightChart = None, bpChart = None,
     weight_chart_container = [], weight_insights = [], bp_chart_container = [],
     bp_insights = [], goal_progress_container = [], health_report_container = [],
     progress_log_message = []\<rparr>"

definition init :: "jsstring \<Rightarrow> 'n tracker \<Rightarrow> 'n tracker" where
  "init uid st =
    (let st = st\<lparr>userId := Some uid\<rparr>;
         st = loadWeightTrend st
     in st\<lparr>active_tabs := insert WeightTab (active_tabs st),
           active_contents := insert WeightTab (active_contents st)\<rparr>)"

text \<open>
  \<^verbatim>\<open>document.querySelector('.progress-tab.active')\<close>: the first tab, in document
  order, that carries the class; \<open>None\<close> is the \<^verbatim>\<open>null\<close> on which reading
  \<^verbatim>\<open>.id\<close> throws. (Modelled from the spec: the page's HTML is not among the
  sources; the four tabs are taken in the order in which the specification lists
  them.)
\<close>

definition active_tab :: "tab set \<Rightarrow> tab option" where
  "active_tab A = List.find (\<lambda>t. t \<in> A) [WeightTab, BloodPressureTab, GoalsTab, ReportTab]"

text \<open>
  The click handler of a tab. \<^verbatim>\<open>ProgressTracker\<close> has no \<^verbatim>\<open>loadGoalProgress\<close>:
  for the goals tab the call throws after the classes are set, and nothing is loaded.
\<close>

definition tab_click :: "tab \<Rightarrow> 'n tracker \<Rightarrow> 'n tracker" where
  "tab_click t st =
    (let st = st\<lparr>active_tabs := {}, active_contents := {}\<rparr>;
         st = st\<lparr>active_tabs := insert t (active_tabs st),
                 active_contents := insert t (active_contents st)\<rparr>
     in case t of
          WeightTab \<Rightarrow> loadWeightTrend st
        | BloodPressureTab \<Rightarrow> loadBloodPressureTrend st
        | GoalsTab \<Rightarrow> st
        | ReportTab \<Rightarrow> loadHealthReport st)"

text \<open>
  The change handler of the time-range selector; \<open>days\<close> is the value of
  \<^verbatim>\<open>parseInt(e.target.value)\<close>.
\<close>

definition range_change :: "int \<Rightarrow> 'n tracker \<Rightarrow> 'n tracker" where
  "range_change days st =
    (let st = st\<lparr>currentDays := days\<rparr>
     in case active_tab (active_tabs st) of
          Some WeightTab \<Rightarrow> loadWeightTrend st
        | Some BloodPressureTab \<Rightarrow> loadBloodPressureTrend st
        | _ \<Rightarrow> st)"

text \<open>
  The submit handler of the goal form; \<open>targetValue\<close> is \<open>None\<close> when
  \<^verbatim>\<open>parseFloat\<close> gives \<^verbatim>\<open>NaN\<close>.
\<close>

definition goal_submit :: "jsstring \<Rightarrow> 'n option \<Rightarrow> 'n tracker \<Rightarrow> 'n tracker" where
  "goal_submit goalType targetValue st =
    (case targetValue of
       None \<Rightarrow> st
     | Some v \<Rightarrow> trackGoalProgress goalType v st)"

text \<open>The submit handler of the log form, its response handlers and its timer.\<close>

definition log_submit ::
  "'n option \<Rightarrow> 'n option \<Rightarrow> 'n option \<Rightarrow> 'n option \<Rightarrow> jsstring option \<Rightarrow> 'n tracker
    \<Rightarrow> 'n tracker" where
  "log_submit weight systolic diastolic sugar notes st =
    logProgress \<lparr>pd_user_id = userId st, pd_weight_kg = weight,
                 pd_blood_pressure_systolic = systolic,
                 pd_blood_pressure_diastolic = diastolic,
                 pd_blood_sugar = sugar, pd_notes = notes\<rparr> st"

definition log_logged :: "'n tracker \<Rightarrow> 'n tracker" where
  "log_logged st =
     st\<lparr>progress_log_message :=
          js ''<div class=\"alert alert-success\">Progress logged successfully!</div>''\<rparr>"

definition log_timer :: "'n tracker \<Rightarrow> 'n tracker" where
  "log_timer st =
    (case active_tab (active_tabs st) of
       Some WeightTab \<Rightarrow> (loadWeightTrend st)\<lparr>progress_log_message := []\<rparr>
     | Some BloodPressureTab \<Rightarrow> (loadBloodPressureTrend st)\<lparr>progress_log_message := []\<rparr>
     | Some _ \<Rightarrow> st\<lparr>progress_log_message := []\<rparr>
     | None \<Rightarrow> st)"

definition log_failed :: "'n tracker \<Rightarrow> 'n tracker" where
  "log_failed st =
     st\<lparr>progress_log_message :=
          js ''<div class=\"alert alert-danger\">Error logging progress. Please try again.</div>''\<rparr>"

text \<open>The \<^verbatim>\<open>catch\<close> handlers of the four loaders.\<close>

definition weightTrendFailed :: "'n tracker \<Rightarrow> 'n tracker" where
  "weightTrendFailed st =
     st\<lparr>weight_chart_container :=
          js ''<div class=\"alert alert-danger\">Error loading weight data. Please try again later.</div>''\<rparr>"

definition bloodPressureTrendFailed :: "'n tracker \<Rightarrow> 'n tracker" where
  "bloodPressureTrendFailed st =
     st\<lparr>bp_chart_container :=
          js ''<div class=\"alert alert-danger\">Error loading blood pressure data. Please try again later.</div>''\<rparr>"

definition goalProgressFailed :: "'n tracker \<Rightarrow> 'n tracker" where
  "goalProgressFailed st =
     st\<lparr>goal_progress_container :=
          js ''<div class=\"alert alert-danger\">Error tracking goal progress. Please try again later.</div>''\<rparr>"

definition healthReportFailed :: "'n tracker \<Rightarrow> 'n tracker" where
  "healthReportFailed st =
     st\<lparr>health_report_container :=
          js ''<div class=\"alert alert-danger\">Error loading health report. Please try again later.</div>''\<rparr>"

text \<open>
  The handler of a report that has arrived: \<^verbatim>\<open>.then(data => this.renderHealthReport(data))\<close>
  followed by the \<^verbatim>\<open>catch\<close>, which also receives what the renderer throws.
\<close>

definition healthReportLoaded ::
  "('n::zero) builtins \<Rightarrow> 'n health_report \<Rightarrow> 'n tracker \<Rightarrow> 'n tracker" where
  "healthReportLoaded env data st =
    (case renderHealthReport env data st of
       Inr st' \<Rightarrow> st'
     | Inl e \<Rightarrow> healthReportFailed st)"

datatype 'n event =
    TabClick tab
  | RangeChange int
  | GoalSubmit jsstring "'n option"
  | LogSubmit "'n option" "'n option" "'n option" "'n option" "jsstring option"
  | LogLogged
  | LogTimer
  | LogFailed
  | WeightTrendLoaded "'n weight_trend"
  | WeightTrendFailed
  | BloodPressureTrendLoaded "'n bp_trend"
  | BloodPressureTrendFailed
  | GoalProgressLoaded "'n goal_progress"
  | GoalProgressFailed
  | HealthReportLoaded "'n health_report"
  | HealthReportFailed

fun handle :: "('n::zero) builtins \<Rightarrow> 'n event \<Rightarrow> 'n tracker \<Rightarrow> 'n tracker" where
  "handle env (TabClick t) st = tab_click t st"
| "handle env (RangeChange days) st = range_change days st"
| "handle env (GoalSubmit goalType targetValue) st = goal_submit goalType targetValue st"
| "handle env (LogSubmit w s d b n) st = log_submit w s d b n st"
| "handle env LogLogged st = log_logged st"
| "handle env LogTimer st = log_timer st"
| "handle env LogFailed st = log_failed st"
| "handle env (WeightTrendLoaded data) st = weightTrendLoaded env data st"
| "handle env WeightTrendFailed st = weightTrendFailed st"
| "handle env (BloodPressureTrendLoaded data) st = bloodPressureTrendLoaded env data st"
| "handle env BloodPressureTrendFailed st = bloodPressureTrendFailed st"
| "handle env (GoalProgressLoaded data) st = renderGoalProgress env data st"
| "handle env GoalProgressFailed st = goalProgressFailed st"
| "handle env (HealthReportLoaded data) st = healthReportLoaded env data st"
| "handle env HealthReportFailed st = healthReportFailed st"

text \<open>
  The controller states the page can be in: after \<^verbatim>\<open>init\<close>, and after any event.
  \<^verbatim>\<open>init\<close> may start from any page on which no tab other than the weight tab
  carries the class \<^verbatim>\<open>active\<close>.
\<close>

inductive reachable :: "('n::zero) builtins \<Rightarrow> 'n tracker \<Rightarrow> bool" for env where
  reachable_init: "active_tabs page \<subseteq> {WeightTab} \<Longrightarrow> reachable env (init uid page)"
| reachable_step: "reachable env st \<Longrightarrow> reachable env (handle env e st)"

section \<open>Health consultation: correlations and health tips\<close>

text \<open>An element of the page: its \<^verbatim>\<open>innerHTML\<close> and whether it carries the class \<^verbatim>\<open>d-none\<close>.\<close>

record element =
  innerHTML :: jsstring
  d_none :: bool

record 'n correlation =
  food :: jsstring
  symptom :: jsstring
  confidence :: jsstring
  correlation_percentage :: 'n
  occurrences :: 'n


text \<open>A tip; each of its fields is a string or is not there.\<close>

record tip =
  tip_title :: "jsstring option"
  tip_description :: "jsstring option"
  tip_importance :: "jsstring option"

text \<open>
  The value of \<^verbatim>\<open>response.json()\<close> is whatever JSON the server sent, and the same
  values are what the cache holds. They are told apart as far as \<^verbatim>\<open>loadHealthTips\<close>
  and \<^verbatim>\<open>renderHealthTips\<close> tell them apart:
  \<^item> an array, whose entries are tips or \<^verbatim>\<open>null\<close> (\<open>None\<close>); an array is truthy,
    also when it is empty;
  \<^item> a falsy value: \<^verbatim>\<open>null\<close>, \<^verbatim>\<open>false\<close>, \<^verbatim>\<open>0\<close> or the empty string;
  \<^item> any other value (an object, a non-empty string, a non-zero number, \<^verbatim>\<open>true\<close>),
    which is truthy and has no function \<^verbatim>\<open>forEach\<close>; it is given with the number
    that its \<^verbatim>\<open>length\<close> property holds (\<open>None\<close>: it holds no number).
\<close>

datatype tips_body = TipsArray "tip option list" | FalsyBody | OtherBody "nat option"


text \<open>
  A call of \<^verbatim>\<open>loadHealthTips\<close> is suspended at each of its two \<^verbatim>\<open>await\<close>s: on
  the \<^verbatim>\<open>fetch\<close>, then on \<^verbatim>\<open>response.json()\<close>.
\<close>

datatype phase = AwaitFetch | AwaitJson

text \<open>
  \<^verbatim>\<open>STATE.healthTips\<close> (the own properties of the cache object), the two content
  elements (\<open>None\<close>: the page has no such element), the categories for which a fetch
  was issued (oldest first), and the suspended calls of \<^verbatim>\<open>loadHealthTips\<close> with their
  category.
\<close>

record consultation =
  healthTips :: "jsstring \<rightharpoonup> tips_body"
  correlations_content :: "element option"
  health_tips_content :: "element option"
  fetches :: "jsstring list"
  calls :: "nat \<rightharpoonup> jsstring \<times> phase"
  next_call :: nat

subsection \<open>Correlations\<close>










subsection \<open>Health tips\<close>

text \<open>An array index printed by a template literal: its decimal digits.\<close>

fun index_str :: "nat \<Rightarrow> jsstring" where
  "index_str n =
    (if n < 10 then [of_nat (48 + n)]
     else index_str (n div 10) @ [of_nat (48 + n mod 10)])"

declare index_str.simps [simp del]



definition set_tips_html :: "jsstring \<Rightarrow> consultation \<Rightarrow> consultation" where
  "set_tips_html html st =
    st\<lparr>health_tips_content :=
         map_option (\<lambda>el. el\<lparr>innerHTML := html\<rparr>) (health_tips_content st)\<rparr>"








definition tips_error :: jsstring where
  "tips_error =
    js ''\<newline>            <div class=\"alert alert-danger\">\<newline>                <p>Unable to load health tips. Please try again later.</p>\<newline>            </div>\<newline>        ''"


text \<open>The \<^verbatim>\<open>catch\<close> block of a suspended call \<open>i\<close>, which ends the call.\<close>

definition tips_catch :: "nat \<Rightarrow> consultation \<Rightarrow> consultation" where
  "tips_catch i st = set_tips_html tips_error (st\<lparr>calls := (calls st)(i := None)\<rparr>)"









section \<open>Authentication module\<close>

subsection \<open>\<^verbatim>\<open>btoa\<close> and \<^verbatim>\<open>atob\<close>\<close>

definition b64_alphabet :: jsstring where
  "b64_alphabet = js ''ABCDEFGHIJKLMNOPQRSTUVWXYZabcdefghijklmnopqrstuvwxyz0123456789+/''"

definition b64_char :: "nat \<Rightarrow> jschar" where
  "b64_char n = b64_alphabet ! n"

fun index_of :: "'a \<Rightarrow> 'a list \<Rightarrow> nat option" where
  "index_of x [] = None"
| "index_of x (y # ys) = (if x = y then Some 0 else map_option Suc (index_of x ys))"

definition b64_val :: "jschar \<Rightarrow> nat option" where
  "b64_val c = index_of c b64_alphabet"

text \<open>Base64 of a list of bytes, three bytes to four characters, padded with \<^verbatim>\<open>=\<close>.\<close>

fun b64_encode :: "nat list \<Rightarrow> jsstring" where
  "b64_encode [] = []"
| "b64_encode [a] = [b64_char (a div 4), b64_char ((a mod 4) * 16), 0x3D, 0x3D]"
| "b64_encode [a, b] =
     [b64_char (a div 4), b64_char ((a mod 4) * 16 + b div 16), b64_char ((b mod 16) * 4), 0x3D]"
| "b64_encode (a # b # c # rest) =
     [b64_char (a div 4), b64_char ((a mod 4) * 16 + b div 16),
      b64_char ((b mod 16) * 4 + c div 64), b64_char (c mod 64)] @ b64_encode rest"

text \<open>\<^verbatim>\<open>btoa\<close> throws on a code unit above 255.\<close>

definition btoa :: "jsstring \<Rightarrow> js_error + jsstring" where
  "btoa s =
    (if list_ex (\<lambda>c. c > 255) s then Inl InvalidCharacterError
     else Inr (b64_encode (map unat s)))"

text \<open>
  \<^verbatim>\<open>atob\<close> (forgiving Base64 decoding): ASCII whitespace is removed; when the length
  is a multiple of four, one or two \<^verbatim>\<open>=\<close> at the end are removed; a length of one
  modulo four, or a character outside the alphabet, is an error; the bits left over
  at the end are dropped.
\<close>

definition ascii_whitespace :: "jschar \<Rightarrow> bool" where
  "ascii_whitespace c = (c = 0x09 \<or> c = 0x0A \<or> c = 0x0C \<or> c = 0x0D \<or> c = 0x20)"

definition strip_padding :: "jsstring \<Rightarrow> jsstring" where
  "strip_padding s =
    (if length s mod 4 = 0 \<and> s \<noteq> [] \<and> last s = 0x3D
     then (if butlast s \<noteq> [] \<and> last (butlast s) = 0x3D then butlast (butlast s) else butlast s)
     else s)"

fun b64_decode :: "nat list \<Rightarrow> nat list" where
  "b64_decode (w # x # y # z # rest) =
     [w * 4 + x div 16, (x mod 16) * 16 + y div 4, (y mod 4) * 64 + z] @ b64_decode rest"
| "b64_decode [w, x, y] = [w * 4 + x div 16, (x mod 16) * 16 + y div 4]"
| "b64_decode [w, x] = [w * 4 + x div 16]"
| "b64_decode _ = []"

definition atob :: "jsstring \<Rightarrow> js_error + jsstring" where
  "atob s =
    (let d = strip_padding (filter (\<lambda>c. \<not> ascii_whitespace c) s)
     in if length d mod 4 = 1 then Inl InvalidCharacterError
        else (case those (map b64_val d) of
                None \<Rightarrow> Inl InvalidCharacterError
              | Some vs \<Rightarrow> Inr (map of_nat (b64_decode vs))))"

subsection \<open>\<^verbatim>\<open>encrypt\<close> and \<^verbatim>\<open>decrypt\<close>\<close>

text \<open>
  \<^verbatim>\<open>secretKey.charCodeAt(i % secretKey.length)\<close>; for the empty key the index and
  the code are \<^verbatim>\<open>NaN\<close>, which \<^verbatim>\<open>^\<close> reads as 0.
\<close>

definition key_code :: "jsstring \<Rightarrow> nat \<Rightarrow> jschar" where
  "key_code secretKey i = (if secretKey = [] then 0 else secretKey ! (i mod length secretKey))"

text \<open>The loop of both functions, with \<^verbatim>\<open>result.join('')\<close>.\<close>

definition xor_loop :: "jsstring \<Rightarrow> jsstring \<Rightarrow> jsstring" where
  "xor_loop text secretKey =
     map (\<lambda>i. (text ! i) XOR key_code secretKey i) [0..<length text]"

definition encrypt :: "jsstring \<Rightarrow> jsstring \<Rightarrow> js_error + jsstring" where
  "encrypt text secretKey = btoa (xor_loop text secretKey)"

text \<open>\<open>None\<close> is the \<^verbatim>\<open>null\<close> that \<^verbatim>\<open>decrypt\<close> returns from its \<^verbatim>\<open>catch\<close>.\<close>

definition decrypt :: "jsstring \<Rightarrow> jsstring \<Rightarrow> jsstring option" where
  "decrypt encoded secretKey =
    (case atob encoded of
       Inl e \<Rightarrow> None
     | Inr text \<Rightarrow> Some (xor_loop text secretKey))"

subsection \<open>\<^verbatim>\<open>Auth.checkAuth\<close>\<close>

definition AUTH_TOKEN_KEY :: jsstring where
  "AUTH_TOKEN_KEY = js ''healthsync_auth_token''"

definition USER_DATA_KEY :: jsstring where
  "USER_DATA_KEY = js ''healthsync_user_data''"

definition SECRET_KEY :: jsstring where
  "SECRET_KEY = js ''healthsync_secure_key_2023''"

text \<open>
  \<open>'j\<close> stands for the values \<^verbatim>\<open>JSON.parse\<close> returns other than \<^verbatim>\<open>null\<close>, so
  that \<open>None\<close> is \<^verbatim>\<open>null\<close>. \<^verbatim>\<open>JSON.parse\<close> itself is a parameter of
  \<open>checkAuth\<close>: a function from the text to the value, or to the error it throws.
\<close>

record 'j auth =
  localStorage :: "jsstring \<rightharpoonup> jsstring"
  isAuthenticated :: bool
  currentUser :: "'j option"

definition logout :: "'j auth \<Rightarrow> 'j auth" where
  "logout st =
     st\<lparr>localStorage := (localStorage st)(AUTH_TOKEN_KEY := None, USER_DATA_KEY := None),
        isAuthenticated := False,
        currentUser := None\<rparr>"

text \<open>\<^verbatim>\<open>if (v)\<close> on the result of \<^verbatim>\<open>getItem\<close>: \<^verbatim>\<open>null\<close> and the empty string are falsy.\<close>

definition truthy_item :: "jsstring option \<Rightarrow> bool" where
  "truthy_item v = (case v of None \<Rightarrow> False | Some s \<Rightarrow> s \<noteq> [])"

text \<open>An argument of \<^verbatim>\<open>JSON.parse\<close> is first converted to a string: \<^verbatim>\<open>null\<close> to "null".\<close>

definition to_string :: "jsstring option \<Rightarrow> jsstring" where
  "to_string v = (case v of None \<Rightarrow> js ''null'' | Some s \<Rightarrow> s)"

definition checkAuth ::
  "(jsstring \<Rightarrow> js_error + 'j option) \<Rightarrow> 'j auth \<Rightarrow> bool \<times> 'j auth" where
  "checkAuth JSON_parse st =
    (let token = localStorage st AUTH_TOKEN_KEY;
         userData = localStorage st USER_DATA_KEY
     in if truthy_item token \<and> truthy_item userData
        then (case JSON_parse (to_string (decrypt (the userData) SECRET_KEY)) of
                Inr user \<Rightarrow> (True, st\<lparr>currentUser := user, isAuthenticated := True\<rparr>)
              | Inl e \<Rightarrow> (False, logout st))
        else (False, st))"

section \<open>Response formatter\<close>

text \<open>
  \<^verbatim>\<open>text.replace(/re/g, replacement)\<close>: the text is scanned from the left; where
  the expression matches, the replacement is written and the scan goes on behind
  the match; elsewhere one code unit is copied. \<open>m\<close> is the expression: applied to
  the rest of the text, it gives the replacement and the length of the match, if
  there is a match right there. (None of the formatter's expressions has an anchor
  or matches the empty string.)
\<close>

function replace_all :: "(jsstring \<Rightarrow> (jsstring \<times> nat) option) \<Rightarrow> jsstring \<Rightarrow> jsstring" where
  "replace_all m [] = []"
| "replace_all m (c # cs) =
    (case m (c # cs) of
       None \<Rightarrow> c # replace_all m cs
     | Some (r, n) \<Rightarrow> r @ replace_all m (drop (n - 1) cs))"
  by pat_completeness auto
termination
  by (relation "measure (\<lambda>(m, s). length s)") auto

text \<open>The character classes of the expressions.\<close>

definition line_terminator :: "jschar \<Rightarrow> bool" where
  "line_terminator c = (c = 0x0A \<or> c = 0x0D \<or> c = 0x2028 \<or> c = 0x2029)"

text \<open>\<^verbatim>\<open>.\<close>\<close>

definition dot :: "jschar \<Rightarrow> bool" where
  "dot c = (\<not> line_terminator c)"

text \<open>\<^verbatim>\<open>\s\<close>\<close>

definition white_space :: "jschar \<Rightarrow> bool" where
  "white_space c =
    (c = 0x09 \<or> c = 0x0A \<or> c = 0x0B \<or> c = 0x0C \<or> c = 0x0D \<or> c = 0x20 \<or> c = 0xA0
     \<or> c = 0x1680 \<or> (0x2000 \<le> c \<and> c \<le> 0x200A) \<or> c = 0x2028 \<or> c = 0x2029
     \<or> c = 0x202F \<or> c = 0x205F \<or> c = 0x3000 \<or> c = 0xFEFF)"

text \<open>\<^verbatim>\<open>\d\<close>\<close>

definition digit :: "jschar \<Rightarrow> bool" where
  "digit c = (0x30 \<le> c \<and> c \<le> 0x39)"

text \<open>\<^verbatim>\<open>[^\n<>]\<close>\<close>

definition para_char :: "jschar \<Rightarrow> bool" where
  "para_char c = (c \<noteq> 0x0A \<and> c \<noteq> 0x3C \<and> c \<noteq> 0x3E)"

fun starts_with :: "jsstring \<Rightarrow> jsstring \<Rightarrow> bool" where
  "starts_with [] s = True"
| "starts_with (p # ps) [] = False"
| "starts_with (p # ps) (c # cs) = (p = c \<and> starts_with ps cs)"

text \<open>
  A lazy group \<^verbatim>\<open>(C*?)\<close> followed by the literal \<open>stop\<close>: the shortest run of
  characters of the class \<open>C\<close> after which \<open>stop\<close> stands.
\<close>

fun lazy_until :: "(jschar \<Rightarrow> bool) \<Rightarrow> jsstring \<Rightarrow> jsstring \<Rightarrow> jsstring option" where
  "lazy_until C stop [] = (if stop = [] then Some [] else None)"
| "lazy_until C stop (c # cs) =
    (if starts_with stop (c # cs) then Some []
     else if C c then map_option ((#) c) (lazy_until C stop cs)
     else None)"

text \<open>\<^verbatim>\<open>/\*\*(.*?)\*\*/\<close> to \<^verbatim>\<open><strong>$1</strong>\<close>\<close>

definition bold :: "jsstring \<Rightarrow> (jsstring \<times> nat) option" where
  "bold s =
    (if starts_with (js ''**'') s
     then (case lazy_until dot (js ''**'') (drop 2 s) of
             Some x \<Rightarrow> Some (js ''<strong>'' @ x @ js ''</strong>'', 2 + length x + 2)
           | None \<Rightarrow> None)
     else None)"

text \<open>\<^verbatim>\<open>/\*\s(.*?)\n/\<close> to a paragraph that starts with a bullet (U+2022) and a space\<close>

definition bullet :: "jsstring \<Rightarrow> (jsstring \<times> nat) option" where
  "bullet s =
    (case s of
       a # b # rest \<Rightarrow>
        (if a = 0x2A \<and> white_space b
         then (case lazy_until dot [0x0A] rest of
                 Some x \<Rightarrow> Some (js ''<p>'' @ [0x2022, 0x20] @ x @ js ''</p>'', 2 + length x + 1)
               | None \<Rightarrow> None)
         else None)
     | _ \<Rightarrow> None)"

text \<open>
  \<^verbatim>\<open>/###\s(.*?)\n/\<close>, \<^verbatim>\<open>/##\s(.*?)\n/\<close> and \<^verbatim>\<open>/#\s(.*?)\n/\<close>: \<open>marks\<close> is the
  run of \<^verbatim>\<open>#\<close>, \<open>tag\<close> the name of the element.
\<close>

definition heading :: "string \<Rightarrow> string \<Rightarrow> jsstring \<Rightarrow> (jsstring \<times> nat) option" where
  "heading marks tag s =
    (if starts_with (js marks) s
     then (case drop (length marks) s of
             b # rest \<Rightarrow>
              (if white_space b
               then (case lazy_until dot [0x0A] rest of
                       Some x \<Rightarrow>
                         Some (js ''<'' @ js tag @ js ''>'' @ x @ js ''</'' @ js tag @ js ''>'',
                               length marks + 1 + length x + 1)
                     | None \<Rightarrow> None)
               else None)
           | [] \<Rightarrow> None)
     else None)"

text \<open>\<^verbatim>\<open>/(\d+)\.\s(.*?)\n/\<close> to \<^verbatim>\<open><p>$1. $2</p>\<close>\<close>

definition numbered :: "jsstring \<Rightarrow> (jsstring \<times> nat) option" where
  "numbered s =
    (let ds = takeWhile digit s
     in if ds = [] then None
        else (case dropWhile digit s of
                a # b # rest \<Rightarrow>
                 (if a = 0x2E \<and> white_space b
                  then (case lazy_until dot [0x0A] rest of
                          Some x \<Rightarrow>
                            Some (js ''<p>'' @ ds @ js ''. '' @ x @ js ''</p>'',
                                  length ds + 2 + length x + 1)
                        | None \<Rightarrow> None)
                  else None)
              | _ \<Rightarrow> None))"

text \<open>\<^verbatim>\<open>/([^\n<>][^\n<>]*?)\n\n/\<close> to \<^verbatim>\<open><p>$1</p>\<close>\<close>

definition paragraph_block :: "jsstring \<Rightarrow> (jsstring \<times> nat) option" where
  "paragraph_block s =
    (case s of
       a # rest \<Rightarrow>
        (if para_char a
         then (case lazy_until para_char [0x0A, 0x0A] rest of
                 Some x \<Rightarrow> Some (js ''<p>'' @ a # x @ js ''</p>'', 1 + length x + 2)
               | None \<Rightarrow> None)
         else None)
     | [] \<Rightarrow> None)"

text \<open>\<^verbatim>\<open>/\n\n/\<close> to the empty string\<close>

definition double_break :: "jsstring \<Rightarrow> (jsstring \<times> nat) option" where
  "double_break s = (if starts_with [0x0A, 0x0A] s then Some ([], 2) else None)"

text \<open>\<^verbatim>\<open>/([^>])\n([^<])/\<close> to \<^verbatim>\<open>$1 $2\<close>\<close>

definition single_break :: "jsstring \<Rightarrow> (jsstring \<times> nat) option" where
  "single_break s =
    (case s of
       a # b # c # rest \<Rightarrow>
        (if a \<noteq> 0x3E \<and> b = 0x0A \<and> c \<noteq> 0x3C then Some ([a, 0x20, c], 3) else None)
     | _ \<Rightarrow> None)"

text \<open>The three last replacements of \<^verbatim>\<open>formatResponse\<close>: paragraphs and line breaks.\<close>

definition collapse_breaks :: "jsstring \<Rightarrow> jsstring" where
  "collapse_breaks text =
    (let text = replace_all paragraph_block text;
         text = replace_all double_break text;
         text = replace_all single_break text
     in text)"

definition formatResponse :: "jsstring \<Rightarrow> jsstring" where
  "formatResponse text =
    (let text = replace_all bold text;
         text = replace_all bullet text;
         text = replace_all (heading ''###'' ''h3'') text;
         text = replace_all (heading ''##'' ''h2'') text;
         text = replace_all (heading ''#'' ''h1'') text;
         text = replace_all numbered text
     in collapse_breaks text)"

section \<open>Sample values\<close>

text \<open>
  An instance of the built-ins for payloads whose numbers are integers: decimal
  digits, dates printed as received, upper case for ASCII letters. The properties
  below are evaluated on it.
\<close>

definition dec_str :: "int \<Rightarrow> jsstring" where
  "dec_str i = (if i < 0 then 0x2D # index_str (nat (- i)) else index_str (nat i))"

definition ascii_upper :: "jschar \<Rightarrow> jschar" where
  "ascii_upper c = (if 0x61 \<le> c \<and> c \<le> 0x7A then c - 0x20 else c)"

definition sample_env :: "int builtins" where
  "sample_env = \<lparr>num_str = dec_str, date_str = (\<lambda>d. d), upper = map ascii_upper\<rparr>"

definition sample_weight_failure :: "int weight_trend" where
  "sample_weight_failure =
    \<lparr>wt_status = js ''insufficient_data'', wt_message = Some (js ''Not enough weight data''),
     first_measurement = None, latest_measurement = None, total_change_kg = 0,
     percent_change = 0, weekly_change_rate_kg = 0, wt_trend = [], wt_insights = None\<rparr>"

definition sample_bp_failure :: "int bp_trend" where
  "sample_bp_failure =
    \<lparr>bp_status = js ''insufficient_data'', bp_message = Some (js ''Not enough readings''),
     average_systolic = 0, average_diastolic = 0, min_systolic = 0, min_diastolic = 0,
     max_systolic = 0, max_diastolic = 0, bp_category = [], data_points = 0,
     bp_insights_list = None\<rparr>"

definition sample_goal :: "jsstring \<Rightarrow> int \<Rightarrow> int goal_progress" where
  "sample_goal status p =
    \<lparr>gp_status = status, gp_message = Some (js ''No goal data''),
     goal_type = js ''weight'', target_value = 70, initial_value = 80, current_value = 75,
     progress_percentage = p, gp_insights = Some [js ''Halfway there'']\<rparr>"

section \<open>The report's sections, as the specification lists them\<close>

text \<open>
  The fixed order of the sections of a health report, when each is present, its
  title and its card. These definitions follow the wording of the specification;
  the report composer itself is \<open>renderHealthReport\<close> above.
\<close>

datatype report_section =
    IdentityInfo | SummarySection | WeightAnalysis | BloodPressureAnalysis
  | NutritionSummary | SymptomPatterns | Recommendations

definition section_order :: "report_section list" where
  "section_order =
    [IdentityInfo, SummarySection, WeightAnalysis, BloodPressureAnalysis,
     NutritionSummary, SymptomPatterns, Recommendations]"

fun section_present :: "'n health_report \<Rightarrow> report_section \<Rightarrow> bool" where
  "section_present data IdentityInfo = True"
| "section_present data SummarySection = True"
| "section_present data WeightAnalysis = (weight_analysis data \<noteq> None)"
| "section_present data BloodPressureAnalysis = (blood_pressure_analysis data \<noteq> None)"
| "section_present data NutritionSummary =
     (case nutrition_summary data of None \<Rightarrow> False | Some n \<Rightarrow> ns_status n = js ''success'')"
| "section_present data SymptomPatterns =
     (case symptom_patterns data of None \<Rightarrow> False | Some p \<Rightarrow> sp_status p = js ''success'')"
| "section_present data Recommendations =
     (case recommendations data of None \<Rightarrow> False | Some recs \<Rightarrow> recs \<noteq> [])"

fun section_title :: "report_section \<Rightarrow> string" where
  "section_title IdentityInfo = ''User Information''"
| "section_title SummarySection = ''Summary''"
| "section_title WeightAnalysis = ''Weight Analysis''"
| "section_title BloodPressureAnalysis = ''Blood Pressure Analysis''"
| "section_title NutritionSummary = ''Nutrition Summary''"
| "section_title SymptomPatterns = ''Symptom Patterns''"
| "section_title Recommendations = ''Recommendations''"

fun section_card :: "('n::zero) builtins \<Rightarrow> 'n health_report \<Rightarrow> report_section \<Rightarrow> jsstring" where
  "section_card env data IdentityInfo = user_info_card env (user_info data)"
| "section_card env data SummarySection = summary_card env data"
| "section_card env data WeightAnalysis =
     (case weight_analysis data of
        Some w \<Rightarrow> (case weight_analysis_card env w of Inr html \<Rightarrow> html | Inl e \<Rightarrow> [])
      | None \<Rightarrow> [])"
| "section_card env data BloodPressureAnalysis =
     (case blood_pressure_analysis data of
        Some b \<Rightarrow> blood_pressure_analysis_card env b | None \<Rightarrow> [])"
| "section_card env data NutritionSummary =
     (case nutrition_summary data of Some n \<Rightarrow> nutrition_summary_card env n | None \<Rightarrow> [])"
| "section_card env data SymptomPatterns =
     (case symptom_patterns data of Some p \<Rightarrow> symptom_patterns_card env p | None \<Rightarrow> [])"
| "section_card env data Recommendations =
     (case recommendations data of Some recs \<Rightarrow> recommendations_card recs | None \<Rightarrow> [])"

text \<open>How every card opens: the card element, then its header with the title.\<close>

definition card_header :: "string \<Rightarrow> jsstring" where
  "card_header title =
     js ''<div class=\"card mb-3\">'' @ js ''<div class=\"card-header\">'' @ js title @ js ''</div>''"

definition sample_report :: "int health_report" where
  "sample_report =
    \<lparr>hr_status = js ''success'', hr_message = None,
     user_info = \<lparr>ui_name = js ''Ana'', ui_age = Some 30, ui_gender = js ''female'',
                  height_cm = 170, current_weight_kg = None\<rparr>,
     report_date = js ''2024-05-01'',
     summary = \<lparr>data_points_collected = 12, days_tracked = 30,
                metrics_tracked = [js ''weight'', js ''symptoms'']\<rparr>,
     weight_analysis = Some \<lparr>wa_total_change_kg = Some (- 2), wa_percent_change = Some (- 3),
                              wa_weekly_change_rate_kg = Some (- 1),
                              wa_trend = Some (js ''decreasing'')\<rparr>,
     blood_pressure_analysis = None,
     nutrition_summary = Some \<lparr>ns_status = js ''no_data'', average_daily_calories = 0,
                                ns_days_tracked = 0, meal_frequency = None\<rparr>,
     symptom_patterns = Some \<lparr>sp_status = js ''success'',
                               most_frequent_symptoms = Some [(js ''headache'', 4)],
                               time_patterns = None\<rparr>,
     recommendations = Some [js ''Walk daily'']\<rparr>"

text \<open>
  The same report with a weight section that is an analysis without result: the
  section is there, and it has none of the fields of a result.
\<close>

definition sample_report_without_trend :: "int health_report" where
  "sample_report_without_trend =
     sample_report\<lparr>weight_analysis :=
       Some \<lparr>wa_total_change_kg = None, wa_percent_change = None,
             wa_weekly_change_rate_kg = None, wa_trend = None\<rparr>\<rparr>"

section \<open>Terms of the claims about the consultation page\<close>

text \<open>\<open>contains p s\<close>: the text \<open>p\<close> occurs in \<open>s\<close>.\<close>

fun contains :: "jsstring \<Rightarrow> jsstring \<Rightarrow> bool" where
  "contains p [] = starts_with p []"
| "contains p (c # cs) = (starts_with p (c # cs) \<or> contains p cs)"



section \<open>Terms of the claims about the authentication module\<close>

text \<open>
  The six-bit values that \<open>b64_encode\<close> writes for a list of bytes, and the padding
  it appends; both are used to reason about \<open>btoa\<close> and \<open>atob\<close>.
\<close>

fun sextets :: "nat list \<Rightarrow> nat list" where
  "sextets [] = []"
| "sextets [a] = [a div 4, (a mod 4) * 16]"
| "sextets [a, b] = [a div 4, (a mod 4) * 16 + b div 16, (b mod 16) * 4]"
| "sextets (a # b # c # rest) =
     [a div 4, (a mod 4) * 16 + b div 16, (b mod 16) * 4 + c div 64, c mod 64] @ sextets rest"

definition padding :: "nat list \<Rightarrow> jsstring" where
  "padding bs = replicate ((3 - length bs mod 3) mod 3) 0x3D"

text \<open>
  A stand-in for \<^verbatim>\<open>JSON.parse\<close> that knows the one text the claim needs: "null"
  parses to \<^verbatim>\<open>null\<close>, anything else is a syntax error.
\<close>

definition sample_parse :: "jsstring \<Rightarrow> js_error + unit option" where
  "sample_parse s = (if s = js ''null'' then Inr None else Inl SyntaxError)"

definition sample_auth :: "jsstring \<Rightarrow> jsstring \<Rightarrow> unit auth" where
  "sample_auth token userData =
    \<lparr>localStorage = [AUTH_TOKEN_KEY \<mapsto> token, USER_DATA_KEY \<mapsto> userData],
     isAuthenticated = False, currentUser = None\<rparr>"

section \<open>Terms of the claims about the formatter\<close>

text \<open>
  A markdown marker stands at the head of a text: two asterisks (bold), an asterisk
  and a white space (bullet), a hash and a white space (heading), or a digit, a full
  stop and a white space (numbered item). A text has a marker when one stands at
  some position of it.
\<close>

fun marker_at :: "jsstring \<Rightarrow> bool" where
  "marker_at (a # b # c # rest) =
     ((a = 0x2A \<and> b = 0x2A) \<or> (a = 0x2A \<and> white_space b) \<or> (a = 0x23 \<and> white_space b)
      \<or> (digit a \<and> b = 0x2E \<and> white_space c))"
| "marker_at [a, b] =
     ((a = 0x2A \<and> b = 0x2A) \<or> (a = 0x2A \<and> white_space b) \<or> (a = 0x23 \<and> white_space b))"
| "marker_at _ = False"

fun has_marker :: "jsstring \<Rightarrow> bool" where
  "has_marker [] = False"
| "has_marker (c # cs) = (marker_at (c # cs) \<or> has_marker cs)"

section \<open>Properties of the renderers\<close>

text \<open>
  Claim C1. When the status of the payload is not "success", each of the three
  metric renderers (weight trend, blood-pressure trend, goal progress) writes the
  notice that wraps the payload's message, and nothing else: the chart surface
  holds the notice, the insights surface is emptied, no chart is created (the chart
  fields of the state are unchanged), and no other field of the payload, numeric
  or insights, has any influence on the result. The two insights renderers, were
  they called on such a payload, write their titled card with the message alone.
\<close>

theorem failure_renders_message_only:
  "(wt_status w \<noteq> js ''success'' \<longrightarrow>
      weightTrendLoaded env w st =
        st\<lparr>weight_chart_container :=
             js ''<div class=\"alert alert-info\">'' @ tmpl (wt_message w) @ js ''</div>'',
           weight_insights := []\<rparr>
      \<and> weightChart (weightTrendLoaded env w st) = weightChart st)
   \<and> (bp_status b \<noteq> js ''success'' \<longrightarrow>
      bloodPressureTrendLoaded env b st =
        st\<lparr>bp_chart_container :=
             js ''<div class=\"alert alert-info\">'' @ tmpl (bp_message b) @ js ''</div>'',
           bp_insights := []\<rparr>
      \<and> bpChart (bloodPressureTrendLoaded env b st) = bpChart st)
   \<and> (gp_status g \<noteq> js ''success'' \<longrightarrow>
      renderGoalProgress env g st =
        st\<lparr>goal_progress_container :=
             js ''<div class=\"alert alert-info\">'' @ tmpl (gp_message g) @ js ''</div>''\<rparr>
      \<and> weightChart (renderGoalProgress env g st) = weightChart st
      \<and> bpChart (renderGoalProgress env g st) = bpChart st)
   \<and> (wt_status w \<noteq> js ''success'' \<longrightarrow>
      renderWeightInsights env w st =
        st\<lparr>weight_insights :=
             js ''<div class=\"card\">'' @ js ''<div class=\"card-header\">Weight Insights</div>''
             @ js ''<div class=\"card-body\">'' @ js ''<p>'' @ tmpl (wt_message w) @ js ''</p>''
             @ js ''</div></div>''\<rparr>)
   \<and> (bp_status b \<noteq> js ''success'' \<longrightarrow>
      renderBloodPressureInsights env b st =
        st\<lparr>bp_insights :=
             js ''<div class=\"card\">''
             @ js ''<div class=\"card-header\">Blood Pressure Insights</div>''
             @ js ''<div class=\"card-body\">'' @ js ''<p>'' @ tmpl (bp_message b) @ js ''</p>''
             @ js ''</div></div>''\<rparr>)"
  by (simp add: weightTrendLoaded_def bloodPressureTrendLoaded_def renderGoalProgress_def
      renderWeightInsights_def renderBloodPressureInsights_def)

theorem failure_renders_message_only_witness:
  "weightTrendLoaded sample_env sample_weight_failure initial_tracker =
     initial_tracker\<lparr>weight_chart_container :=
        js ''<div class=\"alert alert-info\">Not enough weight data</div>''\<rparr>
   \<and> bloodPressureTrendLoaded sample_env sample_bp_failure initial_tracker =
     initial_tracker\<lparr>bp_chart_container :=
        js ''<div class=\"alert alert-info\">Not enough readings</div>''\<rparr>
   \<and> renderGoalProgress sample_env (sample_goal (js ''error'') 50) initial_tracker =
     initial_tracker\<lparr>goal_progress_container :=
        js ''<div class=\"alert alert-info\">No goal data</div>''\<rparr>"
  using failure_renders_message_only [of sample_weight_failure sample_env initial_tracker
      sample_bp_failure "sample_goal (js ''error'') 50"]
  by (simp add: sample_weight_failure_def sample_bp_failure_def sample_goal_def tmpl_def js_def
      initial_tracker_def)

text \<open>
  Claim C2, as the code has it. On a payload with status "success" the goal-progress
  renderer writes the card below, in which the supplied percentage is printed as it
  is, three times: as the width of the bar, as its \<^verbatim>\<open>aria-valuenow\<close> and, followed
  by one \<^verbatim>\<open>%\<close>, as the label of the bar. Nothing is computed and nothing is clamped;
  a supplied value between 0 and 100 is therefore rendered as its clamped value
  would be. The label holds exactly one \<^verbatim>\<open>%\<close> when the printed number holds none.
\<close>

theorem goal_progress_shown_as_supplied:
  fixes g :: "('n::linordered_idom) goal_progress"
  shows "gp_status g = js ''success'' \<longrightarrow>
     renderGoalProgress env g st =
       st\<lparr>goal_progress_container :=
            js ''<div class=\"card\"><div class=\"card-header\">Goal Progress</div>''
            @ js ''<div class=\"card-body\"><p><strong>Goal Type:</strong> ''
            @ or_else (obj_get goalTypeMap (goal_type g)) (goal_type g)
            @ js ''</p><p><strong>Target Value:</strong> '' @ num_str env (target_value g)
            @ js ''</p><p><strong>Initial Value:</strong> '' @ num_str env (initial_value g)
            @ js ''</p><p><strong>Current Value:</strong> '' @ num_str env (current_value g)
            @ js ''</p><div class=\"progress\" style=\"height: 25px;\">''
            @ js ''<div class=\"progress-bar\" role=\"progressbar\" style=\"width: ''
            @ num_str env (progress_percentage g)
            @ js ''%\" aria-valuenow=\"''
            @ num_str env (progress_percentage g)
            @ js ''\" aria-valuemin=\"0\" aria-valuemax=\"100\">''
            @ num_str env (progress_percentage g)
            @ js ''%</div></div><p class=\"mt-2\"></p>''
            @ insights_block (gp_insights g) @ js ''</div></div>''\<rparr>
   \<and> progress_label env (progress_percentage g) = num_str env (progress_percentage g) @ js ''%''
   \<and> (0 \<le> progress_percentage g \<and> progress_percentage g \<le> 100 \<longrightarrow>
        renderGoalProgress env
          (g\<lparr>progress_percentage := max 0 (min 100 (progress_percentage g))\<rparr>) st
          = renderGoalProgress env g st)
   \<and> (0x25 \<notin> set (num_str env (progress_percentage g)) \<longrightarrow>
        count_list (progress_label env (progress_percentage g)) 0x25 = 1)"
proof (intro impI conjI)
  assume ok: "gp_status g = js ''success''"
  then show "renderGoalProgress env g st =
       st\<lparr>goal_progress_container :=
            js ''<div class=\"card\"><div class=\"card-header\">Goal Progress</div>''
            @ js ''<div class=\"card-body\"><p><strong>Goal Type:</strong> ''
            @ or_else (obj_get goalTypeMap (goal_type g)) (goal_type g)
            @ js ''</p><p><strong>Target Value:</strong> '' @ num_str env (target_value g)
            @ js ''</p><p><strong>Initial Value:</strong> '' @ num_str env (initial_value g)
            @ js ''</p><p><strong>Current Value:</strong> '' @ num_str env (current_value g)
            @ js ''</p><div class=\"progress\" style=\"height: 25px;\">''
            @ js ''<div class=\"progress-bar\" role=\"progressbar\" style=\"width: ''
            @ num_str env (progress_percentage g)
            @ js ''%\" aria-valuenow=\"''
            @ num_str env (progress_percentage g)
            @ js ''\" aria-valuemin=\"0\" aria-valuemax=\"100\">''
            @ num_str env (progress_percentage g)
            @ js ''%</div></div><p class=\"mt-2\"></p>''
            @ insights_block (gp_insights g) @ js ''</div></div>''\<rparr>"
    by (simp add: renderGoalProgress_def progress_bar_def progress_label_def Let_def js_def)
next
  show "progress_label env (progress_percentage g) = num_str env (progress_percentage g) @ js ''%''"
    by (simp add: progress_label_def)
next
  assume "0 \<le> progress_percentage g \<and> progress_percentage g \<le> 100"
  then have "max 0 (min 100 (progress_percentage g)) = progress_percentage g"
    by (auto simp add: max_def min_def)
  then show "renderGoalProgress env
          (g\<lparr>progress_percentage := max 0 (min 100 (progress_percentage g))\<rparr>) st
          = renderGoalProgress env g st"
    by simp
next
  assume "0x25 \<notin> set (num_str env (progress_percentage g))"
  then show "count_list (progress_label env (progress_percentage g)) 0x25 = 1"
    by (simp add: progress_label_def js_def count_list_0_iff)
qed

theorem goal_progress_shown_as_supplied_witness:
  "renderGoalProgress sample_env (sample_goal (js ''success'') 50) initial_tracker =
     initial_tracker\<lparr>goal_progress_container :=
       js (''<div class=\"card\"><div class=\"card-header\">Goal Progress</div><div class=\"card-body\">''
         @ ''<p><strong>Goal Type:</strong> Weight</p><p><strong>Target Value:</strong> 70</p>''
         @ ''<p><strong>Initial Value:</strong> 80</p><p><strong>Current Value:</strong> 75</p>''
         @ ''<div class=\"progress\" style=\"height: 25px;\">''
         @ ''<div class=\"progress-bar\" role=\"progressbar\" style=\"width: 50%\" ''
         @ ''aria-valuenow=\"50\" aria-valuemin=\"0\" aria-valuemax=\"100\">50%</div></div>''
         @ ''<p class=\"mt-2\"></p><h5>Insights:</h5><ul><li>Halfway there</li></ul></div></div>'')\<rparr>
   \<and> progress_label sample_env 50 = js ''50%''
   \<and> count_list (progress_label sample_env 50) 0x25 = 1"
  using goal_progress_shown_as_supplied
    [of "sample_goal (js ''success'') 50" sample_env initial_tracker]
  by (simp add: sample_goal_def sample_env_def dec_str_def index_str.simps
      or_else_def obj_get_def goalTypeMap_def js_table_def insights_block_def js_def)

text \<open>
  The claim as written fails: a supplied percentage of 150 is shown as "150%", with
  a bar width of 150%, where clamping would show "100%".
\<close>

theorem progress_not_clamped_counterexample:
  "goal_progress_container
     (renderGoalProgress sample_env (sample_goal (js ''success'') 150) initial_tracker) =
   js (''<div class=\"card\"><div class=\"card-header\">Goal Progress</div><div class=\"card-body\">''
     @ ''<p><strong>Goal Type:</strong> Weight</p><p><strong>Target Value:</strong> 70</p>''
     @ ''<p><strong>Initial Value:</strong> 80</p><p><strong>Current Value:</strong> 75</p>''
     @ ''<div class=\"progress\" style=\"height: 25px;\">''
     @ ''<div class=\"progress-bar\" role=\"progressbar\" style=\"width: 150%\" ''
     @ ''aria-valuenow=\"150\" aria-valuemin=\"0\" aria-valuemax=\"100\">150%</div></div>''
     @ ''<p class=\"mt-2\"></p><h5>Insights:</h5><ul><li>Halfway there</li></ul></div></div>'')
   \<and> progress_label sample_env (progress_percentage (sample_goal (js ''success'') 150))
       = js ''150%''
   \<and> progress_label sample_env
         (max 0 (min 100 (progress_percentage (sample_goal (js ''success'') 150))))
       = js ''100%''
   \<and> js ''150%'' \<noteq> js ''100%''"
  by (simp add: renderGoalProgress_def sample_goal_def sample_env_def progress_bar_def
      progress_label_def dec_str_def index_str.simps or_else_def obj_get_def goalTypeMap_def
      js_table_def insights_block_def js_def)

text \<open>
  Claim C4 at a key that an object literal inherits: for the category
  "constructor" the lookup \<^verbatim>\<open>categoryMap[data.category]\<close> finds
  \<^verbatim>\<open>Object.prototype.constructor\<close>, which is truthy, so the fallback to the key
  is not taken and the text of that function is printed as the category.
\<close>

theorem category_label_inherited_key:
  "category_label (js ''constructor'') = js ''function Object() { [native code] }''
   \<and> category_label (js ''constructor'') \<noteq> js ''constructor''"
  by (simp add: category_label_def obj_get_def or_else_def categoryMap_def
      object_prototype_def js_table_def js_def)

text \<open>
  The table itself is as the claim says: the six keys give their labels, and a key
  that is neither in the table nor inherited from \<^verbatim>\<open>Object.prototype\<close> is echoed,
  without regard to case ("Normal" is not "normal").
\<close>

lemma category_label_table:
  "category_label (js ''normal'') = js ''Normal''
   \<and> category_label (js ''elevated'') = js ''Elevated''
   \<and> category_label (js ''hypertension_stage_1'') = js ''Hypertension Stage 1''
   \<and> category_label (js ''hypertension_stage_2'') = js ''Hypertension Stage 2''
   \<and> category_label (js ''hypertensive_crisis'') = js ''Hypertensive Crisis''
   \<and> category_label (js ''unknown'') = js ''Unknown''
   \<and> category_label (js ''foo'') = js ''foo''
   \<and> category_label (js ''Normal'') = js ''Normal''"
  by (simp add: category_label_def obj_get_def or_else_def categoryMap_def
      object_prototype_def js_table_def js_def)

lemma category_label_echo:
  assumes "key \<notin> fst ` set categoryMap" and "key \<notin> fst ` set (js_table object_prototype)"
  shows "category_label key = key"
proof -
  have "map_of categoryMap key = None" using assms(1) by (simp add: map_of_eq_None_iff)
  moreover have "map_of (js_table object_prototype) key = None"
    using assms(2) by (simp add: map_of_eq_None_iff)
  ultimately show ?thesis by (simp add: category_label_def obj_get_def or_else_def)
qed

lemma sec_single: "concat (map f (filter P [x])) = (if P x then f x else [])"
  by simp

lemma sections_unrolled:
  "concat (map f (filter P section_order)) =
     concat (map f (filter P [IdentityInfo])) @ concat (map f (filter P [SummarySection]))
     @ concat (map f (filter P [WeightAnalysis]))
     @ concat (map f (filter P [BloodPressureAnalysis]))
     @ concat (map f (filter P [NutritionSummary]))
     @ concat (map f (filter P [SymptomPatterns]))
     @ concat (map f (filter P [Recommendations]))"
  by (simp add: section_order_def)

text \<open>
  The report that the composer writes when it does not throw, that is, when a
  weight section that is there has a trend: inside the report element, the cards of
  the sections that are present, in the fixed order identity, summary, weight, blood
  pressure, nutrition, symptom patterns, recommendations, and nothing for a section
  that is absent. Weight and blood pressure are present when the payload has them;
  nutrition and symptom patterns when the payload has them and their own status is
  "success"; recommendations when the list is not empty. Every card written opens
  with the header of its section.
\<close>

lemma report_html:
  assumes ok: "hr_status data = js ''success''"
    and trend: "\<forall>w. weight_analysis data = Some w \<longrightarrow> wa_trend w \<noteq> None"
  shows "renderHealthReport env data st =
       Inr (st\<lparr>health_report_container :=
         js ''<div class=\"health-report\">''
         @ concat (map (section_card env data) (filter (section_present data) section_order))
         @ js ''</div>''\<rparr>)"
proof -
  obtain weight where weight:
    "(case weight_analysis data of Some w \<Rightarrow> weight_analysis_card env w | None \<Rightarrow> Inr [])
       = Inr weight"
    using trend
    by (cases "weight_analysis data") (auto simp add: weight_analysis_card_def Let_def)
  have w: "(if section_present data WeightAnalysis then section_card env data WeightAnalysis else [])
      = weight"
    using weight by (auto split: option.splits)
  have b: "(if section_present data BloodPressureAnalysis
            then section_card env data BloodPressureAnalysis else [])
      = (case blood_pressure_analysis data of
           Some b \<Rightarrow> blood_pressure_analysis_card env b | None \<Rightarrow> [])"
    by (simp split: option.splits)
  have n: "(if section_present data NutritionSummary
            then section_card env data NutritionSummary else [])
      = (case nutrition_summary data of
           Some n \<Rightarrow> (if ns_status n = js ''success'' then nutrition_summary_card env n else [])
         | None \<Rightarrow> [])"
    by (simp split: option.splits)
  have p: "(if section_present data SymptomPatterns
            then section_card env data SymptomPatterns else [])
      = (case symptom_patterns data of
           Some p \<Rightarrow> (if sp_status p = js ''success'' then symptom_patterns_card env p else [])
         | None \<Rightarrow> [])"
    by (simp split: option.splits)
  have r: "(if section_present data Recommendations
            then section_card env data Recommendations else [])
      = (case recommendations data of
           Some recs \<Rightarrow> (if length recs > 0 then recommendations_card recs else [])
         | None \<Rightarrow> [])"
    by (simp split: option.splits)
  have i: "(if section_present data IdentityInfo then section_card env data IdentityInfo else [])
      = user_info_card env (user_info data)"
    by simp
  have s: "(if section_present data SummarySection then section_card env data SummarySection else [])
      = summary_card env data"
    by simp
  show ?thesis
    unfolding sections_unrolled sec_single w b n p r i s
    using ok weight by (simp add: renderHealthReport_def Let_def)
qed

lemma section_card_header:
  assumes "section_present data sec"
    and trend: "\<forall>w. weight_analysis data = Some w \<longrightarrow> wa_trend w \<noteq> None"
  shows "\<exists>body. section_card env data sec = card_header (section_title sec) @ body"
proof (cases sec)
  case IdentityInfo
  then show ?thesis
    by (simp add: user_info_card_def card_header_def Let_def js_def)
next
  case SummarySection
  then show ?thesis by (simp add: summary_card_def card_header_def Let_def js_def)
next
  case WeightAnalysis
  with assms show ?thesis
    by (auto simp add: weight_analysis_card_def card_header_def Let_def js_def)
next
  case BloodPressureAnalysis
  with assms show ?thesis
    by (auto simp add: blood_pressure_analysis_card_def card_header_def Let_def js_def)
next
  case NutritionSummary
  with assms show ?thesis
    by (auto simp add: nutrition_summary_card_def card_header_def Let_def js_def
        split: option.splits)
next
  case SymptomPatterns
  with assms show ?thesis
    by (auto simp add: symptom_patterns_card_def card_header_def Let_def js_def
        split: option.splits)
next
  case Recommendations
  with assms show ?thesis
    by (auto simp add: recommendations_card_def card_header_def Let_def js_def
        split: option.splits)
qed

lemma report_sections_in_order:
  "hr_status data = js ''success''
   \<and> (\<forall>w. weight_analysis data = Some w \<longrightarrow> wa_trend w \<noteq> None) \<longrightarrow>
     healthReportLoaded env data st =
       st\<lparr>health_report_container :=
         js ''<div class=\"health-report\">''
         @ concat (map (section_card env data) (filter (section_present data) section_order))
         @ js ''</div>''\<rparr>
   \<and> (\<forall>sec \<in> set (filter (section_present data) section_order).
         \<exists>body. section_card env data sec = card_header (section_title sec) @ body)"
proof (intro impI conjI ballI)
  assume a: "hr_status data = js ''success''
     \<and> (\<forall>w. weight_analysis data = Some w \<longrightarrow> wa_trend w \<noteq> None)"
  then show "healthReportLoaded env data st =
       st\<lparr>health_report_container :=
         js ''<div class=\"health-report\">''
         @ concat (map (section_card env data) (filter (section_present data) section_order))
         @ js ''</div>''\<rparr>"
    by (simp add: healthReportLoaded_def report_html)
  fix sec assume "sec \<in> set (filter (section_present data) section_order)"
  then have "section_present data sec" by simp
  then show "\<exists>body. section_card env data sec = card_header (section_title sec) @ body"
    using a by (simp add: section_card_header)
qed

lemma report_sections_in_order_sample:
  "filter (section_present sample_report) section_order =
     [IdentityInfo, SummarySection, WeightAnalysis, SymptomPatterns, Recommendations]
   \<and> healthReportLoaded sample_env sample_report initial_tracker =
     initial_tracker\<lparr>health_report_container :=
     js (''<div class=\"health-report\"><div class=\"card mb-3\"><div class=\"card-header''
     @ ''\">User Information</div><div class=\"card-body\"><p><strong>Name:</strong> An''
     @ ''a</p><p><strong>Age:</strong> 30</p><p><strong>Gender:</strong> female</p><p><''
     @ ''strong>Height:</strong> 170 cm</p></div></div><div class=\"card mb-3\"><div cl''
     @ ''ass=\"card-header\">Summary</div><div class=\"card-body\"><p><strong>Report Da''
     @ ''te:</strong> 2024-05-01</p><p><strong>Data Points Collected:</strong> 12</p><p''
     @ ''><strong>Days Tracked:</strong> 30</p><p><strong>Metrics Tracked:</strong> wei''
     @ ''ght, symptoms</p></div></div><div class=\"card mb-3\"><div class=\"card-header''
     @ ''\">Weight Analysis</div><div class=\"card-body\"><p><strong>Total Change:</str''
     @ ''ong> -2 kg (-3%)</p><p><strong>Weekly Change Rate:</strong> -1 kg/week</p><p><''
     @ ''strong>Trend:</strong> Decreasing</p></div></div><div class=\"card mb-3\"><div''
     @ '' class=\"card-header\">Symptom Patterns</div><div class=\"card-body\"><p><stro''
     @ ''ng>Most Frequent Symptoms:</strong></p><ul><li>headache: 4 occurrences</li></u''
     @ ''l></div></div><div class=\"card mb-3\"><div class=\"card-header\">Recommendati''
     @ ''ons</div><div class=\"card-body\"><ul><li>Walk daily</li></ul></div></div></di''
     @ ''v>'')\<rparr>"
  using report_sections_in_order [of sample_report sample_env initial_tracker]
  by (simp add: sample_report_def section_order_def sample_env_def user_info_card_def
      summary_card_def weight_analysis_card_def symptom_patterns_card_def
      recommendations_card_def truthy_num_def capitalize_def ascii_upper_def dec_str_def
      tmpl_num_def index_str.simps js_def)

text \<open>
  Claim C5 at a report whose weight section is an analysis without result. The
  report has status "success" and the section is there, so the claim has it
  emitted third, after identity and summary and before symptom patterns and
  recommendations. The composer gates the section on its presence alone and then
  reads \<^verbatim>\<open>data.weight_analysis.trend.charAt(0)\<close>: it throws a \<^verbatim>\<open>TypeError\<close>
  before anything is written, and the \<^verbatim>\<open>catch\<close> of the loader replaces the report by
  its error notice. No section is emitted, neither the weight section nor the four
  others that the claim lists for this report.
\<close>

theorem report_weight_section_without_trend:
  "hr_status sample_report_without_trend = js ''success''
   \<and> filter (section_present sample_report_without_trend) section_order =
       [IdentityInfo, SummarySection, WeightAnalysis, SymptomPatterns, Recommendations]
   \<and> renderHealthReport sample_env sample_report_without_trend initial_tracker = Inl TypeError
   \<and> healthReportLoaded sample_env sample_report_without_trend initial_tracker =
       initial_tracker\<lparr>health_report_container :=
         js ''<div class=\"alert alert-danger\">Error loading health report. Please try again later.</div>''\<rparr>
   \<and> \<not> contains (js ''User Information'')
         (health_report_container
            (healthReportLoaded sample_env sample_report_without_trend initial_tracker))"
  by (simp add: sample_report_without_trend_def sample_report_def section_order_def
      renderHealthReport_def healthReportLoaded_def healthReportFailed_def
      weight_analysis_card_def initial_tracker_def Let_def js_def)

section \<open>Properties of the tab and time-range controller\<close>

lemma active_tab_single: "active_tab {t} = Some t"
  by (cases t) (simp_all add: active_tab_def)

lemma active_tabs_handle:
  "active_tabs (handle env e st) = (case e of TabClick t \<Rightarrow> {t} | _ \<Rightarrow> active_tabs st)"
proof (cases e)
  case (TabClick t)
  then show ?thesis
    by (cases t)
      (simp_all add: tab_click_def loadWeightTrend_def loadBloodPressureTrend_def
        loadHealthReport_def)
next
  case (RangeChange days)
  then show ?thesis
    by (simp add: range_change_def loadWeightTrend_def loadBloodPressureTrend_def Let_def
        split: option.splits tab.splits)
next
  case (GoalSubmit goalType targetValue)
  then show ?thesis
    by (simp add: goal_submit_def trackGoalProgress_def split: option.splits)
next
  case (LogSubmit w s d b n)
  then show ?thesis by (simp add: log_submit_def logProgress_def)
next
  case LogLogged
  then show ?thesis by (simp add: log_logged_def)
next
  case LogTimer
  then show ?thesis
    by (simp add: log_timer_def loadWeightTrend_def loadBloodPressureTrend_def
        split: option.splits tab.splits)
next
  case LogFailed
  then show ?thesis by (simp add: log_failed_def)
next
  case (WeightTrendLoaded data)
  then show ?thesis
    by (simp add: weightTrendLoaded_def renderWeightInsights_def renderWeightChart_def
        Let_def split_def)
next
  case WeightTrendFailed
  then show ?thesis by (simp add: weightTrendFailed_def)
next
  case (BloodPressureTrendLoaded data)
  then show ?thesis
    by (simp add: bloodPressureTrendLoaded_def renderBloodPressureInsights_def
        renderBloodPressureChart_def Let_def)
next
  case BloodPressureTrendFailed
  then show ?thesis by (simp add: bloodPressureTrendFailed_def)
next
  case (GoalProgressLoaded data)
  then show ?thesis by (simp add: renderGoalProgress_def Let_def)
next
  case GoalProgressFailed
  then show ?thesis by (simp add: goalProgressFailed_def)
next
  case (HealthReportLoaded data)
  then show ?thesis
    by (simp add: healthReportLoaded_def renderHealthReport_def healthReportFailed_def Let_def
        split: sum.splits option.splits)
next
  case HealthReportFailed
  then show ?thesis by (simp add: healthReportFailed_def)
qed

lemma reachable_one_active:
  assumes "reachable env st"
  shows "\<exists>t. active_tabs st = {t}"
  using assms
proof (induction rule: reachable.induct)
  case (reachable_init page uid)
  then have "insert WeightTab (active_tabs page) = {WeightTab}" by auto
  then show ?case
    by (simp add: init_def loadWeightTrend_def Let_def)
next
  case (reachable_step st e)
  then show ?case
    unfolding active_tabs_handle by (cases e) simp_all
qed

text \<open>
  Claim C7. In every state the controller can reach, exactly one tab is active. A
  change of the time range stores the new day count; it issues one load, for the
  weight trend or the blood-pressure trend, when that tab is the active one, and
  it issues no network call at all when the goals tab or the report tab is active.
\<close>

theorem range_change_loads_range_tabs_only:
  "reachable env st \<longrightarrow>
     (\<exists>t. active_tabs st = {t} \<and> active_tab (active_tabs st) = Some t)
   \<and> currentDays (range_change days st) = days
   \<and> (active_tab (active_tabs st) = Some WeightTab \<longrightarrow>
        range_change days st =
          st\<lparr>currentDays := days,
             requests := requests st @ [WeightTrendReq (userId st) days]\<rparr>)
   \<and> (active_tab (active_tabs st) = Some BloodPressureTab \<longrightarrow>
        range_change days st =
          st\<lparr>currentDays := days,
             requests := requests st @ [BloodPressureTrendReq (userId st) days]\<rparr>)
   \<and> (active_tab (active_tabs st) = Some GoalsTab \<or> active_tab (active_tabs st) = Some ReportTab
        \<longrightarrow> range_change days st = st\<lparr>currentDays := days\<rparr>
            \<and> requests (range_change days st) = requests st)"
proof (intro impI conjI)
  assume "reachable env st"
  then obtain t where "active_tabs st = {t}" using reachable_one_active by blast
  then show "\<exists>t. active_tabs st = {t} \<and> active_tab (active_tabs st) = Some t"
    by (simp add: active_tab_single)
next
  show "currentDays (range_change days st) = days"
    by (simp add: range_change_def loadWeightTrend_def loadBloodPressureTrend_def Let_def
        split: option.splits tab.splits)
next
  assume "active_tab (active_tabs st) = Some WeightTab"
  then show "range_change days st =
          st\<lparr>currentDays := days,
             requests := requests st @ [WeightTrendReq (userId st) days]\<rparr>"
    by (simp add: range_change_def loadWeightTrend_def Let_def)
next
  assume "active_tab (active_tabs st) = Some BloodPressureTab"
  then show "range_change days st =
          st\<lparr>currentDays := days,
             requests := requests st @ [BloodPressureTrendReq (userId st) days]\<rparr>"
    by (simp add: range_change_def loadBloodPressureTrend_def Let_def)
next
  assume a: "active_tab (active_tabs st) = Some GoalsTab \<or> active_tab (active_tabs st) = Some ReportTab"
  then show "range_change days st = st\<lparr>currentDays := days\<rparr>"
    by (auto simp add: range_change_def Let_def)
  from a show "requests (range_change days st) = requests st"
    by (auto simp add: range_change_def Let_def)
qed

theorem range_change_loads_range_tabs_only_witness:
  "requests (range_change 7 (handle sample_env (TabClick GoalsTab)
        (init (js ''u1'') initial_tracker))) = [WeightTrendReq (Some (js ''u1'')) 30]
   \<and> currentDays (range_change 7 (handle sample_env (TabClick GoalsTab)
        (init (js ''u1'') initial_tracker))) = 7
   \<and> requests (range_change 7 (init (js ''u1'') initial_tracker :: int tracker)) =
        [WeightTrendReq (Some (js ''u1'')) 30, WeightTrendReq (Some (js ''u1'')) 7]"
  using range_change_loads_range_tabs_only
      [of sample_env "handle sample_env (TabClick GoalsTab) (init (js ''u1'') initial_tracker)" 7]
    range_change_loads_range_tabs_only [of sample_env "init (js ''u1'') initial_tracker" 7]
    reachable_init [of initial_tracker sample_env "js ''u1''"]
    reachable_step [OF reachable_init, of initial_tracker sample_env "TabClick GoalsTab"
      "js ''u1''"]
  by (simp add: init_def initial_tracker_def loadWeightTrend_def tab_click_def Let_def
      active_tab_def range_change_def)

section \<open>Properties of the consultation page\<close>





lemma fetches_set_tips_html [simp]: "fetches (set_tips_html h st) = fetches st"
  and healthTips_set_tips_html [simp]: "healthTips (set_tips_html h st) = healthTips st"
  and calls_set_tips_html [simp]: "calls (set_tips_html h st) = calls st"
  by (simp_all add: set_tips_html_def)


lemma tips_catch_fields [simp]:
  "fetches (tips_catch i st) = fetches st"
  "healthTips (tips_catch i st) = healthTips st"
  "calls (tips_catch i st) = (calls st)(i := None)"
  by (simp_all add: tips_catch_def)


















section \<open>Properties of the authentication module\<close>

lemma atob_empty: "atob [] = Inr []"
  by (simp add: atob_def strip_padding_def)

text \<open>
  Claim C10, as the code has it. When local storage holds a non-empty token under
  the token key, and under the user-data key a text that \<^verbatim>\<open>atob\<close> rejects,
  \<^verbatim>\<open>decrypt\<close> returns \<^verbatim>\<open>null\<close>; \<^verbatim>\<open>JSON.parse(null)\<close> reads the text "null" and
  returns \<^verbatim>\<open>null\<close> without throwing, so \<^verbatim>\<open>checkAuth\<close> returns true with
  \<open>isAuthenticated\<close> set and \<open>currentUser\<close> \<^verbatim>\<open>null\<close>, and \<^verbatim>\<open>logout\<close> is not
  called: the storage is left as it was.
\<close>

theorem invalid_user_data_authenticates:
  "JSON_parse (js ''null'') = Inr None \<and> localStorage st AUTH_TOKEN_KEY = Some token
   \<and> token \<noteq> [] \<and> localStorage st USER_DATA_KEY = Some userData \<and> atob userData = Inl err
   \<longrightarrow> decrypt userData SECRET_KEY = None
     \<and> checkAuth JSON_parse st = (True, st\<lparr>currentUser := None, isAuthenticated := True\<rparr>)"
proof (intro impI conjI)
  assume a: "JSON_parse (js ''null'') = Inr None \<and> localStorage st AUTH_TOKEN_KEY = Some token
   \<and> token \<noteq> [] \<and> localStorage st USER_DATA_KEY = Some userData \<and> atob userData = Inl err"
  then show d: "decrypt userData SECRET_KEY = None" by (simp add: decrypt_def)
  have "userData \<noteq> []" using a atob_empty by auto
  with a d show "checkAuth JSON_parse st = (True, st\<lparr>currentUser := None, isAuthenticated := True\<rparr>)"
    by (simp add: checkAuth_def truthy_item_def to_string_def Let_def)
qed

lemma keys_differ: "AUTH_TOKEN_KEY \<noteq> USER_DATA_KEY"
  by (simp add: AUTH_TOKEN_KEY_def USER_DATA_KEY_def js_def)

theorem invalid_user_data_authenticates_witness:
  "atob (js ''!'') = Inl InvalidCharacterError
   \<and> checkAuth sample_parse (sample_auth (js ''t0k3n'') (js ''!'')) =
       (True, (sample_auth (js ''t0k3n'') (js ''!''))\<lparr>currentUser := None, isAuthenticated := True\<rparr>)"
  using invalid_user_data_authenticates
    [of sample_parse "sample_auth (js ''t0k3n'') (js ''!'')" "js ''t0k3n''" "js ''!''"
        InvalidCharacterError]
    keys_differ
  by (simp add: sample_parse_def sample_auth_def atob_def strip_padding_def
      ascii_whitespace_def js_def)

text \<open>
  The claim as written asks only that both keys are in the storage. With the empty
  string stored as the token the guard \<^verbatim>\<open>token && userData\<close> is false, and
  \<^verbatim>\<open>checkAuth\<close> returns false without touching the state.
\<close>

theorem empty_token_counterexample:
  "localStorage (sample_auth [] (js ''!'')) AUTH_TOKEN_KEY = Some []
   \<and> localStorage (sample_auth [] (js ''!'')) USER_DATA_KEY = Some (js ''!'')
   \<and> atob (js ''!'') = Inl InvalidCharacterError
   \<and> checkAuth sample_parse (sample_auth [] (js ''!'')) = (False, sample_auth [] (js ''!''))"
  using keys_differ
  by (simp add: sample_auth_def checkAuth_def truthy_item_def atob_def strip_padding_def
      ascii_whitespace_def js_def Let_def)

lemma alphabet_length: "length b64_alphabet = 64"
  by (simp add: b64_alphabet_def js_def)

lemma alphabet_distinct: "distinct b64_alphabet"
  by (simp add: b64_alphabet_def js_def)

lemma alphabet_plain:
  "\<forall>c \<in> set b64_alphabet. \<not> ascii_whitespace c \<and> c \<noteq> 0x3D"
  by (simp add: b64_alphabet_def js_def ascii_whitespace_def)

lemma index_of_nth: "distinct xs \<Longrightarrow> n < length xs \<Longrightarrow> index_of (xs ! n) xs = Some n"
proof (induction xs arbitrary: n)
  case Nil
  then show ?case by simp
next
  case (Cons x xs)
  show ?case
  proof (cases n)
    case 0
    then show ?thesis by simp
  next
    case (Suc m)
    with Cons.prems have "xs ! m \<noteq> x" by auto
    with Suc Cons show ?thesis by simp
  qed
qed

lemma b64_val_char: "n < 64 \<Longrightarrow> b64_val (b64_char n) = Some n"
  by (simp add: b64_val_def b64_char_def index_of_nth alphabet_distinct alphabet_length)

lemma b64_char_plain: "n < 64 \<Longrightarrow> \<not> ascii_whitespace (b64_char n) \<and> b64_char n \<noteq> 0x3D"
  using alphabet_plain by (simp add: b64_char_def alphabet_length)

lemma replicate_2: "replicate 2 x = [x, x]"
  by (simp add: numeral_2_eq_2)

lemma encode_split: "b64_encode bs = map b64_char (sextets bs) @ padding bs"
  by (induction bs rule: b64_encode.induct) (simp_all add: padding_def replicate_2)

lemma sextets_bound: "\<forall>b \<in> set bs. b < 256 \<Longrightarrow> \<forall>s \<in> set (sextets bs). s < 64"
proof (induction bs rule: sextets.induct)
  case 1
  then show ?case by simp
next
  case (2 a)
  then show ?case by (simp add: less_mult_imp_div_less)
next
  case (3 a b)
  have "b div 16 < 16" using 3 by (simp add: less_mult_imp_div_less)
  moreover have "a mod 4 * 16 \<le> 48" by simp
  ultimately have "a mod 4 * 16 + b div 16 < 64" by linarith
  moreover have "b mod 16 * 4 < 64" by simp
  ultimately show ?case using 3 by (simp add: less_mult_imp_div_less)
next
  case (4 a b c rest)
  have "b div 16 < 16" using 4 by (simp add: less_mult_imp_div_less)
  moreover have "a mod 4 * 16 \<le> 48" by simp
  ultimately have x: "a mod 4 * 16 + b div 16 < 64" by linarith
  have "c div 64 < 4" using 4 by (simp add: less_mult_imp_div_less)
  moreover have "b mod 16 * 4 \<le> 60" by simp
  ultimately have y: "b mod 16 * 4 + c div 64 < 64" by linarith
  show ?case using 4 x y by (simp add: less_mult_imp_div_less)
qed

lemma decode_sextets: "\<forall>b \<in> set bs. b < 256 \<Longrightarrow> b64_decode (sextets bs) = bs"
proof (induction bs rule: sextets.induct)
  case 1
  then show ?case by simp
next
  case (2 a)
  then show ?case by simp
next
  case (3 a b)
  have "b div 16 < 16" using 3 by (simp add: less_mult_imp_div_less)
  then have "(a mod 4 * 16 + b div 16) div 16 = a mod 4"
    and "(a mod 4 * 16 + b div 16) mod 16 = b div 16" by simp_all
  then show ?case by simp
next
  case (4 a b c rest)
  have "b div 16 < 16" using 4 by (simp add: less_mult_imp_div_less)
  then have x: "(a mod 4 * 16 + b div 16) div 16 = a mod 4"
    "(a mod 4 * 16 + b div 16) mod 16 = b div 16" by simp_all
  have "c div 64 < 4" using 4 by (simp add: less_mult_imp_div_less)
  then have y: "(b mod 16 * 4 + c div 64) div 4 = b mod 16"
    "(b mod 16 * 4 + c div 64) mod 4 = c div 64" by simp_all
  show ?case using 4 x y by simp
qed

lemma sextets_length: "(length (sextets bs) + length (padding bs)) mod 4 = 0"
  by (induction bs rule: sextets.induct) (simp_all add: padding_def)

lemma sextets_length_not_1: "length (sextets bs) mod 4 \<noteq> 1"
  by (induction bs rule: sextets.induct) simp_all

lemma sextets_nonempty: "bs \<noteq> [] \<Longrightarrow> sextets bs \<noteq> []"
  by (induction bs rule: sextets.induct) simp_all

lemma padding_cases: "padding bs = [] \<or> padding bs = [0x3D] \<or> padding bs = [0x3D, 0x3D]"
proof -
  have "(3 - length bs mod 3) mod 3 < 3" by simp
  then have "(3 - length bs mod 3) mod 3 = 0 \<or> (3 - length bs mod 3) mod 3 = 1
      \<or> (3 - length bs mod 3) mod 3 = 2" by linarith
  then show ?thesis
    by (auto simp add: padding_def replicate_2)
qed

lemma strip_padding_encode:
  assumes "\<forall>b \<in> set bs. b < 256"
  shows "strip_padding (b64_encode bs) = map b64_char (sextets bs)"
proof (cases "bs = []")
  case True
  then show ?thesis by (simp add: strip_padding_def)
next
  case False
  let ?u = "map b64_char (sextets bs)"
  have ne: "?u \<noteq> []" using False sextets_nonempty by simp
  have "last (sextets bs) \<in> set (sextets bs)" using False sextets_nonempty by simp
  then have "last (sextets bs) < 64" using sextets_bound [OF assms] by blast
  then have lu: "last ?u \<noteq> 0x3D" using ne b64_char_plain by (simp add: last_map)
  have len: "(length ?u + length (padding bs)) mod 4 = 0" using sextets_length by simp
  from padding_cases [of bs] show ?thesis
  proof (elim disjE)
    assume "padding bs = []"
    then show ?thesis using lu ne by (simp add: encode_split strip_padding_def)
  next
    assume p: "padding bs = [0x3D]"
    then show ?thesis using lu ne len by (simp add: encode_split strip_padding_def butlast_append)
  next
    assume p: "padding bs = [0x3D, 0x3D]"
    then show ?thesis using lu ne len by (simp add: encode_split strip_padding_def butlast_append)
  qed
qed

lemma filter_encode:
  assumes "\<forall>b \<in> set bs. b < 256"
  shows "filter (\<lambda>c. \<not> ascii_whitespace c) (b64_encode bs) = b64_encode bs"
proof -
  have "\<forall>c \<in> set (map b64_char (sextets bs)). \<not> ascii_whitespace c"
    using sextets_bound [OF assms] b64_char_plain by auto
  moreover have "\<forall>c \<in> set (padding bs). \<not> ascii_whitespace c"
    by (simp add: padding_def ascii_whitespace_def)
  ultimately show ?thesis by (simp add: encode_split filter_id_conv)
qed

lemma those_map_Some: "\<forall>x \<in> set xs. f x = Some (g x) \<Longrightarrow> those (map f xs) = Some (map g xs)"
  by (induction xs) simp_all

lemma those_b64_val:
  assumes "\<forall>s \<in> set ss. s < 64"
  shows "those (map b64_val (map b64_char ss)) = Some ss"
proof -
  have "\<forall>s \<in> set ss. (b64_val \<circ> b64_char) s = Some (id s)" using assms b64_val_char by simp
  then have "those (map (b64_val \<circ> b64_char) ss) = Some (map id ss)" by (rule those_map_Some)
  then show ?thesis by simp
qed

lemma atob_encode:
  assumes "\<forall>b \<in> set bs. b < 256"
  shows "atob (b64_encode bs) = Inr (map of_nat bs)"
  using those_b64_val [OF sextets_bound [OF assms]] sextets_length_not_1 [of bs]
  by (simp add: atob_def filter_encode [OF assms] strip_padding_encode [OF assms]
      decode_sextets [OF assms] Let_def)

lemma atob_btoa:
  "\<forall>c \<in> set s. c \<le> 255 \<Longrightarrow>
   btoa s = Inr (b64_encode (map unat s)) \<and> atob (b64_encode (map unat s)) = Inr s"
proof -
  assume a: "\<forall>c \<in> set s. c \<le> 255"
  then have "\<forall>b \<in> set (map unat s). b < 256" by (auto simp add: word_le_nat_alt)
  then have "atob (b64_encode (map unat s)) = Inr (map of_nat (map unat s))" by (rule atob_encode)
  moreover have "map of_nat (map unat s) = s" by (simp add: map_idI)
  moreover have "\<not> list_ex (\<lambda>c. c > 255) s" using a by (auto simp add: list_ex_iff)
  ultimately show ?thesis by (simp add: btoa_def)
qed

lemma xor_loop_length [simp]: "length (xor_loop text secretKey) = length text"
  by (simp add: xor_loop_def)

lemma xor_loop_twice: "xor_loop (xor_loop text secretKey) secretKey = text"
  by (rule nth_equalityI) (simp_all add: xor_loop_def xor.assoc)

lemma xor_latin1:
  fixes a b :: "16 word"
  assumes "a \<le> 255" and "b \<le> 255"
  shows "a XOR b \<le> 255"
proof -
  have a: "unat a < 2 ^ 8" and b: "unat b < 2 ^ 8"
    using assms by (simp_all add: word_le_nat_alt)
  have "take_bit 8 (unat a XOR unat b) = take_bit 8 (unat a) XOR take_bit 8 (unat b)"
    by (rule take_bit_xor)
  also have "\<dots> = unat a XOR unat b"
    using a b by (simp add: take_bit_nat_eq_self)
  finally have "unat a XOR unat b < 2 ^ 8"
    by (simp only: take_bit_nat_eq_self_iff)
  moreover have "unat (a XOR b) = unat a XOR unat b"
    by (simp add: unsigned_xor_eq)
  ultimately show ?thesis by (simp add: word_le_nat_alt)
qed

text \<open>
  Claim C9. For every text and every non-empty key such that each code unit of the
  text, combined by XOR with the key's code unit at the same position (the key
  repeated), is at most 255, \<^verbatim>\<open>encrypt\<close> returns a string and \<^verbatim>\<open>decrypt\<close> of that
  string, with the same key, is the text. This is so in particular when all code
  units of the text and of the key are at most 255.
\<close>

theorem decrypt_encrypt:
  "(secretKey \<noteq> []
    \<and> (\<forall>i < length text. (text ! i) XOR (secretKey ! (i mod length secretKey)) \<le> 255)
    \<longrightarrow> (\<exists>encoded. encrypt text secretKey = Inr encoded
           \<and> decrypt encoded secretKey = Some text))
   \<and> (secretKey \<noteq> [] \<and> (\<forall>c \<in> set text. c \<le> 255) \<and> (\<forall>c \<in> set secretKey. c \<le> 255)
      \<longrightarrow> (\<exists>encoded. encrypt text secretKey = Inr encoded
             \<and> decrypt encoded secretKey = Some text))"
proof -
  have main: "\<exists>encoded. encrypt text secretKey = Inr encoded
           \<and> decrypt encoded secretKey = Some text"
    if a: "secretKey \<noteq> []"
      "\<forall>i < length text. (text ! i) XOR (secretKey ! (i mod length secretKey)) \<le> 255"
  proof -
    have "\<forall>c \<in> set (xor_loop text secretKey). c \<le> 255"
      using a by (auto simp add: xor_loop_def key_code_def)
    then have "btoa (xor_loop text secretKey)
          = Inr (b64_encode (map unat (xor_loop text secretKey)))
        \<and> atob (b64_encode (map unat (xor_loop text secretKey)))
          = Inr (xor_loop text secretKey)"
      by (rule atob_btoa)
    then show ?thesis
      by (simp add: encrypt_def decrypt_def xor_loop_twice)
  qed
  have latin1: "\<forall>i < length text. (text ! i) XOR (secretKey ! (i mod length secretKey)) \<le> 255"
    if b: "secretKey \<noteq> []" "\<forall>c \<in> set text. c \<le> 255" "\<forall>c \<in> set secretKey. c \<le> 255"
  proof (intro allI impI)
    fix i assume "i < length text"
    then have "text ! i \<le> 255" using b(2) by simp
    moreover have "i mod length secretKey < length secretKey" using b(1) by simp
    then have "secretKey ! (i mod length secretKey) \<le> 255" using b(3) by simp
    ultimately show "(text ! i) XOR (secretKey ! (i mod length secretKey)) \<le> 255"
      by (rule xor_latin1)
  qed
  show ?thesis using main latin1 by blast
qed

theorem decrypt_encrypt_witness:
  "encrypt (js ''hi'') SECRET_KEY = Inr (js ''AAw='')
   \<and> decrypt (js ''AAw='') SECRET_KEY = Some (js ''hi'')"
  using decrypt_encrypt [of SECRET_KEY "js ''hi''"]
  by (simp add: encrypt_def decrypt_def atob_def strip_padding_def ascii_whitespace_def
      b64_val_def btoa_def b64_char_def b64_alphabet_def SECRET_KEY_def xor_loop_def
      key_code_def js_def upt_rec)

section \<open>Properties of the formatter\<close>

lemma replace_all_no_match:
  "(\<And>t. set t \<subseteq> set s \<Longrightarrow> m t = None) \<Longrightarrow> replace_all m s = s"
proof (induction s)
  case Nil
  then show ?case by simp
next
  case (Cons c cs)
  have "m (c # cs) = None" using Cons.prems by simp
  moreover have "replace_all m cs = cs"
  proof (rule Cons.IH)
    fix t assume "set t \<subseteq> set cs"
    then have "set t \<subseteq> set (c # cs)" by auto
    then show "m t = None" by (rule Cons.prems)
  qed
  ultimately show ?case by simp
qed

lemma replace_all_no_marker:
  "(\<And>t. m t \<noteq> None \<Longrightarrow> has_marker t) \<Longrightarrow> \<not> has_marker s \<Longrightarrow> replace_all m s = s"
proof (induction s)
  case Nil
  then show ?case by simp
next
  case (Cons c cs)
  have "m (c # cs) = None" using Cons.prems by blast
  moreover have "replace_all m cs = cs" using Cons by simp
  ultimately show ?case by simp
qed

lemma lazy_until_stop:
  "lazy_until C stop s = Some x \<Longrightarrow> stop \<noteq> [] \<Longrightarrow> hd stop \<in> set s"
proof (induction s arbitrary: x)
  case Nil
  then show ?case by simp
next
  case (Cons c cs)
  show ?case
  proof (cases "starts_with stop (c # cs)")
    case True
    then have "hd stop = c" using Cons.prems(2) by (cases stop) simp_all
    then show ?thesis by simp
  next
    case False
    with Cons.prems obtain y where "lazy_until C stop cs = Some y"
      by (auto split: if_splits)
    then have "hd stop \<in> set cs" using Cons.IH Cons.prems(2) by blast
    then show ?thesis by simp
  qed
qed

lemma starts_with_set: "starts_with p s \<Longrightarrow> set p \<subseteq> set s"
  by (induction p s rule: starts_with.induct) auto

text \<open>Every expression but the first needs a newline; the first needs an asterisk.\<close>

lemma bold_needs_asterisk: "0x2A \<notin> set s \<Longrightarrow> bold s = None"
  using starts_with_set [of "js ''**''" s] by (auto simp add: bold_def js_def)

lemma bullet_needs_newline: "0x0A \<notin> set s \<Longrightarrow> bullet s = None"
  using lazy_until_stop [of dot "[0x0A]"]
  by (fastforce simp add: bullet_def split: list.splits option.splits)

lemma heading_needs_newline: "0x0A \<notin> set s \<Longrightarrow> heading marks tag s = None"
proof -
  assume a: "0x0A \<notin> set s"
  have "lazy_until dot [0x0A] rest = None" if "set rest \<subseteq> set s" for rest
  proof (cases "lazy_until dot [0x0A] rest")
    case (Some x)
    then have "0x0A \<in> set rest" using lazy_until_stop [of dot "[0x0A]" rest x] by simp
    with that a show ?thesis by auto
  qed simp
  moreover have "set rest \<subseteq> set s" if "drop (length marks) s = b # rest" for b rest
    using that set_drop_subset [of "length marks" s] by auto
  ultimately show ?thesis
    by (auto simp add: heading_def split: list.splits option.splits)
qed

lemma numbered_needs_newline: "0x0A \<notin> set s \<Longrightarrow> numbered s = None"
proof -
  assume a: "0x0A \<notin> set s"
  have "lazy_until dot [0x0A] rest = None" if "set rest \<subseteq> set s" for rest
  proof (cases "lazy_until dot [0x0A] rest")
    case (Some x)
    then have "0x0A \<in> set rest" using lazy_until_stop [of dot "[0x0A]" rest x] by simp
    with that a show ?thesis by auto
  qed simp
  moreover have "set rest \<subseteq> set s" if "dropWhile digit s = a # b # rest" for a b rest
    using that set_dropWhileD [of _ digit s] by auto
  ultimately show ?thesis
    by (auto simp add: numbered_def Let_def split: list.splits option.splits)
qed

lemma paragraph_needs_newline: "0x0A \<notin> set s \<Longrightarrow> paragraph_block s = None"
  using lazy_until_stop [of para_char "[0x0A, 0x0A]"]
  by (fastforce simp add: paragraph_block_def split: list.splits option.splits)

lemma double_break_needs_newline: "0x0A \<notin> set s \<Longrightarrow> double_break s = None"
  using starts_with_set [of "[0x0A, 0x0A]" s] by (auto simp add: double_break_def)

lemma single_break_needs_newline: "0x0A \<notin> set s \<Longrightarrow> single_break s = None"
  by (auto simp add: single_break_def split: list.splits)

lemma no_newline_no_asterisk_unchanged:
  assumes "0x0A \<notin> set s" and "0x2A \<notin> set s"
  shows "formatResponse s = s"
proof -
  have n: "0x0A \<notin> set t" if "set t \<subseteq> set s" for t using that assms(1) by auto
  have a: "0x2A \<notin> set t" if "set t \<subseteq> set s" for t using that assms(2) by auto
  have "replace_all bold s = s"
    by (rule replace_all_no_match) (simp add: a bold_needs_asterisk)
  moreover have "replace_all bullet s = s"
    by (rule replace_all_no_match) (simp add: n bullet_needs_newline)
  moreover have "replace_all (heading marks tag) s = s" for marks tag
    by (rule replace_all_no_match) (simp add: n heading_needs_newline)
  moreover have "replace_all numbered s = s"
    by (rule replace_all_no_match) (simp add: n numbered_needs_newline)
  moreover have "replace_all paragraph_block s = s"
    by (rule replace_all_no_match) (simp add: n paragraph_needs_newline)
  moreover have "replace_all double_break s = s"
    by (rule replace_all_no_match) (simp add: n double_break_needs_newline)
  moreover have "replace_all single_break s = s"
    by (rule replace_all_no_match) (simp add: n single_break_needs_newline)
  ultimately show ?thesis by (simp add: formatResponse_def collapse_breaks_def)
qed

text \<open>Where one of the first six expressions matches, the text has a marker.\<close>

lemma has_marker_append: "has_marker ys \<Longrightarrow> has_marker (xs @ ys)"
  by (induction xs) simp_all

lemma has_marker_drop: "has_marker (drop n s) \<Longrightarrow> has_marker s"
  using has_marker_append [of "drop n s" "take n s"] by simp

lemma bold_marker: "bold t \<noteq> None \<Longrightarrow> has_marker t"
proof -
  assume "bold t \<noteq> None"
  then have "starts_with (js ''**'') t" by (auto simp add: bold_def split: if_splits)
  then obtain rest where "t = 0x2A # 0x2A # rest"
    by (cases t; cases "tl t") (auto simp add: js_def)
  then show ?thesis by (cases rest) simp_all
qed

lemma bullet_marker: "bullet t \<noteq> None \<Longrightarrow> has_marker t"
proof -
  assume "bullet t \<noteq> None"
  then obtain b rest where "t = 0x2A # b # rest" "white_space b"
    by (auto simp add: bullet_def split: list.splits if_splits)
  then show ?thesis by (cases rest) simp_all
qed

lemma hash_marker: "white_space b \<Longrightarrow> has_marker (0x23 # b # rest)"
  by (cases rest) simp_all

lemma heading_marker:
  assumes "heading marks tag t \<noteq> None" and "marks \<noteq> []" and "last marks = CHR ''#''"
  shows "has_marker t"
proof -
  from assms(1) have sw: "starts_with (js marks) t"
    by (auto simp add: heading_def split: if_splits)
  from assms(1) obtain b rest where d: "drop (length marks) t = b # rest" "white_space b"
    by (auto simp add: heading_def split: if_splits list.splits)
  have pre: "take (length p) s = p" if "starts_with p s" for p s :: jsstring
    using that by (induction p s rule: starts_with.induct) simp_all
  have tk: "take (length marks) t = js marks" using pre [OF sw] by (simp add: js_def)
  have "t = take (length marks) t @ drop (length marks) t" by simp
  then have "t = js marks @ b # rest" using tk d by simp
  moreover have "js marks = js (butlast marks) @ [0x23]"
  proof -
    have "marks = butlast marks @ [CHR ''#'']" using assms(2,3) by (metis append_butlast_last_id)
    then have "js marks = js (butlast marks @ [CHR ''#''])" by simp
    then show ?thesis by (simp add: js_def)
  qed
  ultimately have "t = js (butlast marks) @ (0x23 # b # rest)" by simp
  then show ?thesis using hash_marker [OF d(2)] has_marker_append by metis
qed

lemma numbered_marker: "numbered t \<noteq> None \<Longrightarrow> has_marker t"
proof -
  assume a: "numbered t \<noteq> None"
  let ?ds = "takeWhile digit t"
  from a have ne: "?ds \<noteq> []" by (auto simp add: numbered_def Let_def split: if_splits)
  from a obtain b rest where d: "dropWhile digit t = 0x2E # b # rest" "white_space b"
    by (auto simp add: numbered_def Let_def split: if_splits list.splits)
  have "last ?ds \<in> set ?ds" using ne by simp
  then have dg: "digit (last ?ds)" by (meson set_takeWhileD)
  have "t = ?ds @ dropWhile digit t" by simp
  moreover have "?ds = butlast ?ds @ [last ?ds]" using ne by simp
  ultimately have "t = (butlast ?ds @ [last ?ds]) @ 0x2E # b # rest" using d by metis
  then have "t = butlast ?ds @ (last ?ds # 0x2E # b # rest)" by simp
  moreover have "has_marker (last ?ds # 0x2E # b # rest)" using dg d(2) by simp
  ultimately show ?thesis using has_marker_append by metis
qed

lemma no_marker_only_breaks:
  assumes "\<not> has_marker s"
  shows "formatResponse s = collapse_breaks s"
proof -
  have "replace_all bold s = s"
    using bold_marker assms by (rule replace_all_no_marker)
  moreover have "replace_all bullet s = s"
    using bullet_marker assms by (rule replace_all_no_marker)
  moreover have "replace_all (heading ''###'' ''h3'') s = s"
    using heading_marker [of "''###''" "''h3''"] assms
    by (intro replace_all_no_marker) simp_all
  moreover have "replace_all (heading ''##'' ''h2'') s = s"
    using heading_marker [of "''##''" "''h2''"] assms
    by (intro replace_all_no_marker) simp_all
  moreover have "replace_all (heading ''#'' ''h1'') s = s"
    using heading_marker [of "''#''" "''h1''"] assms
    by (intro replace_all_no_marker) simp_all
  moreover have "replace_all numbered s = s"
    using numbered_marker assms by (rule replace_all_no_marker)
  ultimately show ?thesis by (simp add: formatResponse_def)
qed


text \<open>
  Claim C3, as the code has it. \<open>formatResponse\<close> is a total function on strings:
  every replacement scans the text once, so it returns for every input and throws
  for none. On a text without markdown markers the six marker replacements change
  nothing, and the result is the text with the paragraph and line-break
  replacements applied. A text with no newline and no asterisk is returned as it
  is, and a second pass over it changes nothing; so a second pass changes nothing
  whenever the first has left no newline and no asterisk.
\<close>

theorem formatter_passes_plain_text:
  "(\<not> has_marker s \<longrightarrow> formatResponse s = collapse_breaks s)
   \<and> (0x0A \<notin> set s \<and> 0x2A \<notin> set s \<longrightarrow>
        formatResponse s = s \<and> formatResponse (formatResponse s) = formatResponse s)
   \<and> (0x0A \<notin> set (formatResponse s) \<and> 0x2A \<notin> set (formatResponse s) \<longrightarrow>
        formatResponse (formatResponse s) = formatResponse s)"
  using no_marker_only_breaks [of s] no_newline_no_asterisk_unchanged [of s]
    no_newline_no_asterisk_unchanged [of "formatResponse s"] by simp

lemmas formatter_defs =
  formatResponse_def collapse_breaks_def bold_def bullet_def heading_def numbered_def
  paragraph_block_def double_break_def single_break_def dot_def line_terminator_def
  white_space_def digit_def para_char_def js_def Let_def

theorem formatter_passes_plain_text_witness:
  "formatResponse (js ''plain text'') = js ''plain text''
   \<and> \<not> has_marker (js ''one\<newline>two'')
   \<and> formatResponse (js ''one\<newline>two'') = js ''one two''
   \<and> formatResponse (formatResponse (js ''one\<newline>two'')) = js ''one two''"
  using formatter_passes_plain_text [of "js ''plain text''"]
    formatter_passes_plain_text [of "js ''one\<newline>two''"]
  by (simp add: formatter_defs)

text \<open>
  The claim as written fails: the formatter is not idempotent. The replacement for
  a numbered item keeps the item's marker (\<^verbatim>\<open><p>$1. $2</p>\<close>), so a second pass
  matches the item again when a newline still follows on its line, and wraps it a
  second time. A second pass also changes marker-free text in which a line of one
  character stands between two newlines: the last expression consumes the character
  after a newline, and only the first of the two newlines is replaced in a pass.
  And a block before a blank line is wrapped in a paragraph element, which is more
  than collapsing newlines.
\<close>

theorem formatter_second_pass_counterexample:
  "formatResponse (js ''1. a\<newline>b\<newline>'') = js ''<p>1. a</p>b\<newline>''
   \<and> formatResponse (formatResponse (js ''1. a\<newline>b\<newline>''))
       = js ''<p><p>1. a</p>b</p>''
   \<and> js ''<p><p>1. a</p>b</p>'' \<noteq> js ''<p>1. a</p>b\<newline>''
   \<and> \<not> has_marker (js ''a\<newline>b\<newline>c'')
   \<and> formatResponse (js ''a\<newline>b\<newline>c'') = js ''a b\<newline>c''
   \<and> formatResponse (formatResponse (js ''a\<newline>b\<newline>c'')) = js ''a b c''
   \<and> js ''a b c'' \<noteq> js ''a b\<newline>c''
   \<and> formatResponse (js ''a\<newline>\<newline>b'') = js ''<p>a</p>b''"
  by (simp add: formatter_defs)

end
